theory Spec2Isabelle
  imports Complex_Main
begin

section \<open>The monitoring service of app/services/monitoring\_service.py\<close>

text \<open>
  The embedding follows the class \<open>MonitoringService\<close>. Wall-clock readings
  (\<open>time.time()\<close>) are doubles, held as the real numbers they denote and handed to
  each operation, one argument per reading, in the order the source takes them.
\<close>

subsection \<open>Python dictionaries\<close>

text \<open>
  A \<open>dict\<close> is an association list in insertion order. Assigning to a key that is
  present overwrites the value where it stands, assigning to a new key appends, and
  \<open>pop(k, None)\<close> removes the key when it is there.
\<close>

type_synonym ('k, 'v) dict = "('k \<times> 'v) list"

fun dict_setitem :: "('k, 'v) dict \<Rightarrow> 'k \<Rightarrow> 'v \<Rightarrow> ('k, 'v) dict" where
  "dict_setitem [] k v = [(k, v)]"
| "dict_setitem ((k', v') # d) k v =
     (if k' = k then (k, v) # d else (k', v') # dict_setitem d k v)"

definition dict_pop :: "('k, 'v) dict \<Rightarrow> 'k \<Rightarrow> ('k, 'v) dict" where
  "dict_pop d k = filter (\<lambda>(k', v'). k' \<noteq> k) d"

definition dict_len :: "('k, 'v) dict \<Rightarrow> nat" where
  "dict_len d = length d"


subsection \<open>The service object\<close>

type_synonym user_id = int
type_synonym timestamp = real

text \<open>A Flask application, as far as the service reads it: its configuration.\<close>

datatype flask_app = Flask (config: "(string \<times> string) list")

datatype tracer = Tracer
datatype meter = Meter

datatype instrument_kind = Counter | Histogram | ObservableGauge

datatype gauge_callback =
  GetCpuUsage | GetMemoryUsage | GetDiskUsage | GetActiveUsersCount

datatype instrument =
  Instrument (kind: instrument_kind) (iname: string) (description: string)
    (unit_of: string) (callbacks: "gauge_callback list")

datatype observation = Observation real

record monitoring_service =
  enabled :: bool
  connection_string :: "string option"
  tracer :: "tracer option"
  meter :: "meter option"
  app :: "flask_app option"
  http_request_duration :: "instrument option"
  http_requests_total :: "instrument option"
  cpu_usage_gauge :: "instrument option"
  memory_usage_gauge :: "instrument option"
  disk_usage_gauge :: "instrument option"
  db_query_duration :: "instrument option"
  db_connections_active :: "instrument option"
  active_users_gauge :: "instrument option"
  user_sessions_counter :: "instrument option"
  system_monitor_thread :: bool
  monitor_interval :: real
  active_users :: "(user_id, timestamp) dict"
  active_user_timeout :: real

text \<open>\<open>MonitoringService.__init__\<close>.\<close>

definition MonitoringService :: monitoring_service where
  "MonitoringService =
     \<lparr> enabled = False, connection_string = None, tracer = None, meter = None,
       app = None,
       http_request_duration = None, http_requests_total = None,
       cpu_usage_gauge = None, memory_usage_gauge = None, disk_usage_gauge = None,
       db_query_duration = None, db_connections_active = None,
       active_users_gauge = None, user_sessions_counter = None,
       system_monitor_thread = False, monitor_interval = 60,
       active_users = [], active_user_timeout = 900 \<rparr>"

subsection \<open>Double arithmetic\<close>

text \<open>
  \<open>time.time()\<close> returns a double and the ages the tracker compares are differences
  of doubles, rounded to the nearest double, ties to the even mantissa. A timestamp is
  the real value of a double. \<open>rne\<close> rounds a real to the nearest integer, ties to
  even; \<open>ulp x\<close> is the spacing of the doubles in the binade of \<open>x\<close> (53-bit
  mantissa); \<open>round53\<close> rounds to the nearest double and \<open>dsub\<close> is the
  subtraction of two doubles. The exponent is unbounded: overflow to infinity and NaN
  are left out, which cannot change a comparison with a finite timeout.
\<close>

definition rne :: "real \<Rightarrow> int" where
  "rne y = (let f = \<lfloor>y\<rfloor>; r = y - of_int f
            in if r < 1 / 2 then f
               else if 1 / 2 < r then f + 1
               else if even f then f else f + 1)"

definition ulp :: "real \<Rightarrow> real" where
  "ulp x = 2 powr (of_int (\<lfloor>log 2 \<bar>x\<bar>\<rfloor>) - 52)"

definition round53 :: "real \<Rightarrow> real" where
  "round53 x = (if x = 0 then 0 else of_int (rne (x / ulp x)) * ulp x)"

definition dsub :: "real \<Rightarrow> real \<Rightarrow> real" where
  "dsub a b = round53 (a - b)"

subsection \<open>Active-user tracking\<close>

text \<open>
  The body of the \<open>try\<close> block of \<open>_track_user_activity(user_id)\<close>, run without
  disturbance. The source reads the clock twice: \<open>t_store\<close> is the value stored for
  the user, \<open>current_time\<close> the later reading the clean-up compares against. The list
  comprehension collects the keys to drop, the loop pops them one by one. The method
  itself, with its handler, is \<open>track_user_activity\<close> below.
\<close>

definition track_user_activity_body ::
    "user_id \<Rightarrow> timestamp \<Rightarrow> timestamp \<Rightarrow> monitoring_service \<Rightarrow> monitoring_service" where
  "track_user_activity_body uid t_store current_time s =
     (let d = dict_setitem (active_users s) uid t_store;
          inactive_users =
            map fst (filter (\<lambda>(uid', last_active).
                       dsub current_time last_active > active_user_timeout s) d)
      in s\<lparr>active_users := foldl dict_pop d inactive_users\<rparr>)"

text \<open>
  The body of the \<open>try\<close> block of \<open>_get_active_users_count(options)\<close>, a generator,
  run without disturbance: the dictionary is rebuilt from the entries that are still
  inside the window, and one observation, its length, is yielded. The result is the
  list of yielded observations and the service afterwards. The callback with its
  handler is \<open>get_active_users_count_callback\<close> below.
\<close>

definition get_active_users_count ::
    "timestamp \<Rightarrow> monitoring_service \<Rightarrow> observation list \<times> monitoring_service" where
  "get_active_users_count current_time s =
     (let d = filter (\<lambda>(uid, last_active).
                 dsub current_time last_active \<le> active_user_timeout s) (active_users s)
      in ([Observation (real (dict_len d))], s\<lparr>active_users := d\<rparr>))"



subsection \<open>The window, in the words of the specification\<close>







subsection \<open>Exceptions, external calls and what they leave behind\<close>

text \<open>
  \<open>py_error\<close> stands for an instance of a subclass of \<open>Exception\<close>, with
  \<open>type(e).__name__\<close> and \<open>str(e)\<close>: what an \<open>except Exception\<close> clause catches.
\<close>

datatype py_error = PyError (etype: string) (emsg: string)

datatype attr_value = AStr string | AInt int | AReal real | ABool bool

type_synonym attributes = "(string \<times> attr_value) list"

datatype span_ref = CurrentSpan | NewSpan string

text \<open>
  The calls the service makes into Flask, OpenTelemetry, psutil and the standard
  library. \<open>Ext\<close> is a call that matters only because it may raise; it carries the
  name of what is called.
\<close>

datatype ext_op =
    Ext string
  | SetAttribute span_ref string attr_value
  | StartSpan string
  | RecordException span_ref py_error
  | EndSpan string
  | HistogramRecord string real attributes
  | CounterAdd string int attributes
  | CreateInstrument instrument_kind string string string "gauge_callback list"
  | Print string

datatype log_level = Debug | Info | Warning | Error

text \<open>
  The state of a run: the service object (\<open>self\<close>), the number of external calls made
  so far, the external calls that returned, in order, and the log records written.
  The fault plan says, for the n-th external call of the run, whether it raises.
\<close>

record world =
  svc :: monitoring_service
  ncalls :: nat
  performed :: "ext_op list"
  logged :: "(log_level \<times> string) list"

type_synonym faults = "nat \<Rightarrow> ext_op \<Rightarrow> py_error option"

type_synonym 'a ext = "faults \<Rightarrow> world \<Rightarrow> (py_error + 'a) \<times> world"

definition ret :: "'a \<Rightarrow> 'a ext" where
  "ret x = (\<lambda>\<rho> st. (Inr x, st))"

definition py_raise :: "py_error \<Rightarrow> 'a ext" where
  "py_raise e = (\<lambda>\<rho> st. (Inl e, st))"

definition bnd :: "'a ext \<Rightarrow> ('a \<Rightarrow> 'b ext) \<Rightarrow> 'b ext" where
  "bnd m f = (\<lambda>\<rho> st. case m \<rho> st of
                (Inl e, st') \<Rightarrow> (Inl e, st')
              | (Inr x, st') \<Rightarrow> f x \<rho> st')"

definition thn :: "'a ext \<Rightarrow> 'b ext \<Rightarrow> 'b ext" where
  "thn m n = bnd m (\<lambda>_. n)"

text \<open>\<open>try: m except Exception as e: h e\<close>.\<close>

definition try_except :: "'a ext \<Rightarrow> (py_error \<Rightarrow> 'a ext) \<Rightarrow> 'a ext" where
  "try_except m h = (\<lambda>\<rho> st. case m \<rho> st of
                       (Inl e, st') \<Rightarrow> h e \<rho> st'
                     | (Inr x, st') \<Rightarrow> (Inr x, st'))"

text \<open>
  The exit of a \<open>with\<close> block: \<open>fin\<close> runs however \<open>m\<close> ends; what \<open>fin\<close> raises
  replaces the outcome of \<open>m\<close>.
\<close>

definition py_finally :: "'a ext \<Rightarrow> unit ext \<Rightarrow> 'a ext" where
  "py_finally m fin = (\<lambda>\<rho> st. case m \<rho> st of
                      (r, st') \<Rightarrow> (case fin \<rho> st' of
                                     (Inl e, st'') \<Rightarrow> (Inl e, st'')
                                   | (Inr u, st'') \<Rightarrow> (r, st'')))"

definition call :: "ext_op \<Rightarrow> unit ext" where
  "call op = (\<lambda>\<rho> st. case \<rho> (ncalls st) op of
                Some e \<Rightarrow> (Inl e, st\<lparr>ncalls := Suc (ncalls st)\<rparr>)
              | None \<Rightarrow> (Inr (), st\<lparr>ncalls := Suc (ncalls st),
                                    performed := performed st @ [op]\<rparr>))"

definition logger :: "log_level \<Rightarrow> string \<Rightarrow> unit ext" where
  "logger lvl msg = (\<lambda>\<rho> st. (Inr (), st\<lparr>logged := logged st @ [(lvl, msg)]\<rparr>))"

definition get_self :: "monitoring_service ext" where
  "get_self = (\<lambda>\<rho> st. (Inr (svc st), st))"

definition set_self :: "(monitoring_service \<Rightarrow> monitoring_service) \<Rightarrow> unit ext" where
  "set_self f = (\<lambda>\<rho> st. (Inr (), st\<lparr>svc := f (svc st)\<rparr>))"

text \<open>\<open>with self.tracer.start_as_current_span(name) as span: body\<close>.\<close>

definition with_span :: "string \<Rightarrow> (span_ref \<Rightarrow> 'a ext) \<Rightarrow> 'a ext" where
  "with_span name body =
     bnd (call (StartSpan name))
       (\<lambda>_. py_finally (body (NewSpan name)) (call (EndSpan name)))"

subsection \<open>Strings\<close>

definition digit_char :: "nat \<Rightarrow> char" where
  "digit_char n = char_of (48 + n)"

fun str_nat :: "nat \<Rightarrow> string" where
  "str_nat n = (if n < 10 then [digit_char n]
                else str_nat (n div 10) @ [digit_char (n mod 10)])"

declare str_nat.simps [simp del]

text \<open>The decimal digits of an integer, with its sign.\<close>

definition str_int :: "int \<Rightarrow> string" where
  "str_int i = (if i < 0 then CHR ''-'' # str_nat (nat (- i)) else str_nat (nat i))"

text \<open>
  \<open>str(i)\<close> for an integer: the conversion raises \<open>ValueError\<close> beyond 4300 digits.
\<close>

definition py_str_int :: "int \<Rightarrow> string ext" where
  "py_str_int i =
     (if 4300 < length (str_nat (nat \<bar>i\<bar>))
      then py_raise (PyError ''ValueError''
             ''Exceeds the limit (4300 digits) for integer string conversion'')
      else ret (str_int i))"

definition py_isspace :: "char \<Rightarrow> bool" where
  "py_isspace c =
     ((of_char c :: nat) \<in> set [9, 10, 11, 12, 13, 28, 29, 30, 31, 32, 133, 160])"

text \<open>
  \<open>s.strip()\<close> of the client address. The address comes from a request header or
  from the WSGI environment, whose strings hold code points below 256 only; among
  these, \<open>py_isspace\<close> lists the ones that \<open>str.strip\<close> removes.
\<close>

definition py_strip :: "string \<Rightarrow> string" where
  "py_strip s = rev (dropWhile py_isspace (rev (dropWhile py_isspace s)))"

text \<open>\<open>s.split(',')[0]\<close>.\<close>

definition first_field :: "string \<Rightarrow> string" where
  "first_field s = takeWhile (\<lambda>c. c \<noteq> CHR '','') s"

text \<open>
  A value of a \<open>properties\<close> dictionary is given by what \<open>str(value)\<close> does: it
  returns a string or raises.
\<close>

type_synonym properties = "(string \<times> (py_error + string)) list"

definition py_str :: "py_error + string \<Rightarrow> string ext" where
  "py_str v = (case v of Inl e \<Rightarrow> py_raise e | Inr s \<Rightarrow> ret s)"

text \<open>\<open>for key, value in properties.items(): span.set_attribute(key, str(value))\<close>.\<close>

primrec set_attributes :: "span_ref \<Rightarrow> properties \<Rightarrow> unit ext" where
  "set_attributes sp [] = ret ()"
| "set_attributes sp (p # ps) =
     bnd (py_str (snd p))
       (\<lambda>sv. thn (call (SetAttribute sp (fst p) (AStr sv))) (set_attributes sp ps))"

subsection \<open>The tracker methods\<close>

text \<open>
  Iterating over \<open>self.active_users.items()\<close> raises \<open>RuntimeError\<close> when another
  thread changes the size of the dictionary meanwhile: the request threads touch the
  dictionary and the exporter thread reads the count. The iteration is an external
  call, so that the run decides whether it is disturbed; what the other thread stores
  or drops is that thread's own touch or read.
\<close>

definition dict_iteration :: ext_op where
  "dict_iteration = Ext ''self.active_users.items()''"

text \<open>
  \<open>_track_user_activity(user_id)\<close>: the timestamp is stored, the comprehension
  iterates over the dictionary and the collected keys are popped; what the iteration
  raises is logged, and the keys are then not popped.
\<close>

definition track_user_activity :: "user_id \<Rightarrow> timestamp \<Rightarrow> timestamp \<Rightarrow> unit ext" where
  "track_user_activity uid t_store current_time =
     try_except
       (thn (set_self (\<lambda>s. s\<lparr>active_users := dict_setitem (active_users s) uid t_store\<rparr>))
       (thn (call dict_iteration)
         (set_self (\<lambda>s. s\<lparr>active_users :=
            foldl dict_pop (active_users s)
              (map fst (filter (\<lambda>(uid', last_active).
                          dsub current_time last_active > active_user_timeout s)
                 (active_users s)))\<rparr>))))
       (\<lambda>e. logger Warning (''[MONITORING] Error tracking user activity: '' @ emsg e))"


subsection \<open>Request hooks\<close>

text \<open>
  What a hook finds in \<open>flask.g\<close>, in \<open>flask.request\<close> and in the tracing context:
  the attributes \<open>g.request_start_time\<close> and \<open>g.user_id\<close> when they are set, the
  request's method, endpoint and client address, and whether there is a current span
  and whether it records.
\<close>

record request_ctx =
  g_request_start_time :: "timestamp option"
  g_user_id :: "string option"
  request_method :: string
  request_endpoint :: "string option"
  x_forwarded_for :: "string option"
  remote_addr :: "string option"
  has_current_span :: bool
  span_is_recording :: bool

record response =
  status_code :: int
  payload :: string

text \<open>\<open>x or "unknown"\<close> for an optional string.\<close>

definition or_unknown :: "string option \<Rightarrow> string" where
  "or_unknown x = (case x of None \<Rightarrow> ''unknown'' | Some e \<Rightarrow> (if e = [] then ''unknown'' else e))"

text \<open>The first \<open>try\<close> block of \<open>after_request\<close>.\<close>

definition after_request_user_context :: "request_ctx \<Rightarrow> unit ext" where
  "after_request_user_context ctx =
     thn (call (Ext ''from flask_login import current_user''))
    (thn (call (Ext ''from opentelemetry import trace''))
      (case g_user_id ctx of
         None \<Rightarrow> ret ()
       | Some user_id \<Rightarrow>
           thn (call (Ext ''trace.get_current_span''))
             (if has_current_span ctx
              then thn (call (Ext ''current_span.is_recording''))
                     (if span_is_recording ctx
                      then thn (call (SetAttribute CurrentSpan ''ai.user.authUserId'' (AStr user_id)))
                             (call (SetAttribute CurrentSpan ''user_id'' (AStr user_id)))
                      else ret ())
              else ret ())))"

text \<open>The second \<open>try\<close> block of \<open>after_request\<close>; \<open>now\<close> is its clock reading.\<close>

definition after_request_metrics :: "request_ctx \<Rightarrow> timestamp \<Rightarrow> response \<Rightarrow> unit ext" where
  "after_request_metrics ctx now resp =
     (case g_request_start_time ctx of
        None \<Rightarrow> ret ()
      | Some start_time \<Rightarrow>
          bnd get_self (\<lambda>s.
            thn (case http_request_duration s of
                   None \<Rightarrow> ret ()
                 | Some h \<Rightarrow>
                     call (HistogramRecord (iname h) ((now - start_time) * 1000)
                       [(''http.method'', AStr (request_method ctx)),
                        (''http.route'', AStr (or_unknown (request_endpoint ctx))),
                        (''http.status_code'', AInt (status_code resp))]))
                (case http_requests_total s of
                   None \<Rightarrow> ret ()
                 | Some c \<Rightarrow>
                     call (CounterAdd (iname c) 1
                       [(''http.method'', AStr (request_method ctx)),
                        (''http.status_code'', AInt (status_code resp))]))))"

definition after_request :: "request_ctx \<Rightarrow> timestamp \<Rightarrow> response \<Rightarrow> response ext" where
  "after_request ctx now resp =
     bnd get_self (\<lambda>s.
       if \<not> enabled s then ret resp
       else
         thn (try_except (after_request_user_context ctx)
                (\<lambda>e. logger Debug (''[MONITORING] Error in after_request user context: '' @ emsg e)))
        (thn (try_except (after_request_metrics ctx now resp)
                (\<lambda>e. logger Warning (''[MONITORING] Error tracking request: '' @ emsg e)))
          (ret resp)))"

text \<open>\<open>handle_exception(error)\<close>, the handler registered for \<open>Exception\<close>.\<close>

definition handle_exception :: "py_error \<Rightarrow> response ext" where
  "handle_exception error =
     bnd get_self (\<lambda>s.
       thn (if enabled s \<and> tracer s \<noteq> None
            then try_except
                   (with_span ''error_handler'' (\<lambda>sp.
                      thn (call (SetAttribute sp ''error.type'' (AStr (etype error))))
                     (thn (call (SetAttribute sp ''error.message'' (AStr (emsg error))))
                       (call (RecordException sp error)))))
                   (\<lambda>e. ret ())
            else ret ())
         (py_raise error))"

subsection \<open>Gauge callbacks\<close>

text \<open>
  The values the samplers and the clock would return at one collection. Each callback
  is a generator; the result is the list of observations it yields.
\<close>

record sampler =
  cpu_percent :: real
  memory_percent :: real
  disk_percent :: real
  clock :: timestamp

definition get_cpu_usage :: "sampler \<Rightarrow> observation list ext" where
  "get_cpu_usage smp =
     try_except
       (thn (call (Ext ''psutil.cpu_percent'')) (ret [Observation (cpu_percent smp)]))
       (\<lambda>e. thn (logger Warning (''[MONITORING] Error getting CPU usage: '' @ emsg e)) (ret []))"

definition get_memory_usage :: "sampler \<Rightarrow> observation list ext" where
  "get_memory_usage smp =
     try_except
       (thn (call (Ext ''psutil.virtual_memory'')) (ret [Observation (memory_percent smp)]))
       (\<lambda>e. thn (logger Warning (''[MONITORING] Error getting memory usage: '' @ emsg e)) (ret []))"

definition get_disk_usage :: "sampler \<Rightarrow> observation list ext" where
  "get_disk_usage smp =
     try_except
       (thn (call (Ext ''psutil.disk_usage'')) (ret [Observation (disk_percent smp)]))
       (\<lambda>e. thn (logger Warning (''[MONITORING] Error getting disk usage: '' @ emsg e)) (ret []))"

text \<open>
  \<open>_get_active_users_count(options)\<close> as the callback of the gauge, on the service held
  in the state: the comprehension iterates over the dictionary, the dictionary is
  replaced and its length yielded; what the iteration raises is logged and nothing is
  yielded.
\<close>

definition get_active_users_count_callback :: "sampler \<Rightarrow> observation list ext" where
  "get_active_users_count_callback smp =
     try_except
       (thn (call dict_iteration)
          (\<lambda>\<rho> st. (Inr (fst (get_active_users_count (clock smp) (svc st))),
                    st\<lparr>svc := snd (get_active_users_count (clock smp) (svc st))\<rparr>)))
       (\<lambda>e. thn (logger Warning (''[MONITORING] Error getting active users count: '' @ emsg e))
               (ret []))"

fun invoke_callback :: "sampler \<Rightarrow> gauge_callback \<Rightarrow> observation list ext" where
  "invoke_callback smp GetCpuUsage = get_cpu_usage smp"
| "invoke_callback smp GetMemoryUsage = get_memory_usage smp"
| "invoke_callback smp GetDiskUsage = get_disk_usage smp"
| "invoke_callback smp GetActiveUsersCount = get_active_users_count_callback smp"

text \<open>
  Modelled from the spec: the flush of the metric registry (section 4.1), whose loop
  over the gauges belongs to the telemetry SDK and is not in the source. Every callback
  of every gauge is invoked in turn and its observations are collected under the name
  of the gauge. This loop catches nothing: an exception that leaves a callback ends the
  flush, and a failed flush ends the sequence of ticks.
\<close>

primrec collect_callbacks ::
    "sampler \<Rightarrow> (string \<times> gauge_callback) list \<Rightarrow> (string \<times> observation) list ext" where
  "collect_callbacks smp [] = ret []"
| "collect_callbacks smp (c # cs) =
     bnd (invoke_callback smp (snd c))
       (\<lambda>obs. bnd (collect_callbacks smp cs)
          (\<lambda>rest. ret (map (Pair (fst c)) obs @ rest)))"

definition gauges_of :: "monitoring_service \<Rightarrow> instrument list" where
  "gauges_of s =
     concat (map (\<lambda>g. case g of None \<Rightarrow> [] | Some i \<Rightarrow> [i])
       [cpu_usage_gauge s, memory_usage_gauge s, disk_usage_gauge s, active_users_gauge s])"

definition flush_gauges :: "sampler \<Rightarrow> (string \<times> observation) list ext" where
  "flush_gauges smp =
     bnd get_self (\<lambda>s.
       collect_callbacks smp
         (concat (map (\<lambda>i. map (Pair (iname i)) (callbacks i)) (gauges_of s))))"

primrec flush_ticks :: "sampler list \<Rightarrow> (string \<times> observation) list list ext" where
  "flush_ticks [] = ret []"
| "flush_ticks (smp # smps) =
     bnd (flush_gauges smp)
       (\<lambda>obs. bnd (flush_ticks smps) (\<lambda>rest. ret (obs # rest)))"

subsection \<open>The background thread\<close>

text \<open>One turn of the loop of \<open>monitor_system_health\<close>: sleep, log what the sleep raises.\<close>

definition monitor_iteration :: "unit ext" where
  "monitor_iteration =
     try_except (call (Ext ''time.sleep''))
       (\<lambda>e. logger Error (''[MONITORING] System health monitoring error: '' @ emsg e))"

text \<open>
  \<open>while self.enabled: ...\<close> with fuel: \<open>None\<close> when the loop is still running after
  \<open>n\<close> turns.
\<close>

fun monitor_system_health :: "nat \<Rightarrow> faults \<Rightarrow> world \<Rightarrow> ((py_error + unit) \<times> world) option" where
  "monitor_system_health 0 \<rho> st = None"
| "monitor_system_health (Suc n) \<rho> st =
     (if enabled (svc st)
      then (case monitor_iteration \<rho> st of
              (Inl e, st') \<Rightarrow> Some (Inl e, st')
            | (Inr u, st') \<Rightarrow> monitor_system_health n \<rho> st')
      else Some (Inr (), st))"

subsection \<open>Tracking calls of the application\<close>

definition track_custom_event :: "string \<Rightarrow> properties option \<Rightarrow> unit ext" where
  "track_custom_event name props =
     bnd get_self (\<lambda>s.
       if \<not> enabled s \<or> tracer s = None then ret ()
       else
         try_except
           (with_span name (\<lambda>sp.
              case props of
                None \<Rightarrow> ret ()
              | Some ps \<Rightarrow> (if ps = [] then ret () else set_attributes sp ps)))
           (\<lambda>e. logger Warning (''[MONITORING] Error tracking custom event: '' @ emsg e)))"

definition track_database_query :: "string \<Rightarrow> real \<Rightarrow> bool \<Rightarrow> unit ext" where
  "track_database_query query_name duration_ms success =
     bnd get_self (\<lambda>s.
       if \<not> enabled s then ret ()
       else
         (case db_query_duration s of
            None \<Rightarrow> ret ()
          | Some h \<Rightarrow>
              try_except
                (call (HistogramRecord (iname h) duration_ms
                   [(''db.query.name'', AStr query_name),
                    (''db.query.success'', ABool success)]))
                (\<lambda>e. logger Warning (''[MONITORING] Error tracking database query: '' @ emsg e))))"

text \<open>The inner \<open>try\<close> block of \<open>track_user_session\<close> that adds the client address.\<close>

definition session_client_ip :: "request_ctx \<Rightarrow> span_ref \<Rightarrow> unit ext" where
  "session_client_ip ctx sp =
     try_except
       (thn (call (Ext ''request.headers.get''))
          (case (case x_forwarded_for ctx of Some h \<Rightarrow> Some h | None \<Rightarrow> remote_addr ctx) of
             None \<Rightarrow> ret ()
           | Some user_ip \<Rightarrow>
               (if user_ip = [] then ret ()
                else call (SetAttribute sp ''client.ip'' (AStr (py_strip (first_field user_ip)))))))
       (\<lambda>e. ret ())"

definition track_user_session ::
    "request_ctx \<Rightarrow> user_id \<Rightarrow> string \<Rightarrow> properties option \<Rightarrow> unit ext" where
  "track_user_session ctx uid event_type props =
     bnd get_self (\<lambda>s.
       if \<not> enabled s \<or> tracer s = None then ret ()
       else
         try_except
           (thn (call (Ext ''from flask import request''))
           (thn (call (Ext ''from opentelemetry import trace''))
           (thn (call (Ext ''trace.get_current_span''))
           (thn (if has_current_span ctx
                 then thn (bnd (py_str_int uid) (\<lambda>u.
                             call (SetAttribute CurrentSpan ''enduser.id'' (AStr u))))
                        (bnd (py_str_int uid) (\<lambda>u.
                           call (SetAttribute CurrentSpan ''user_AuthenticatedId'' (AStr u))))
                 else ret ())
           (thn (with_span (''user_session_'' @ event_type) (\<lambda>sp.
                   thn (bnd (py_str_int uid) (\<lambda>u. call (SetAttribute sp ''user.id'' (AStr u))))
                  (thn (bnd (py_str_int uid) (\<lambda>u.
                          call (SetAttribute sp ''enduser.id'' (AStr u))))
                  (thn (bnd (py_str_int uid) (\<lambda>u.
                          call (SetAttribute sp ''user_AuthenticatedId'' (AStr u))))
                  (thn (call (SetAttribute sp ''session.event'' (AStr event_type)))
                  (thn (session_client_ip ctx sp)
                    (case props of
                       None \<Rightarrow> ret ()
                     | Some ps \<Rightarrow> (if ps = [] then ret () else set_attributes sp ps))))))))
             (case user_sessions_counter s of
                None \<Rightarrow> ret ()
              | Some c \<Rightarrow>
                  call (CounterAdd (iname c) 1 [(''session.event'', AStr event_type)])))))))
           (\<lambda>e. logger Warning (''[MONITORING] Error tracking user session: '' @ emsg e)))"

subsection \<open>Initialisation\<close>

text \<open>
  One \<open>self.meter.create_...\<close> call: the meter creates the instrument or raises.
\<close>

definition create_instrument ::
    "instrument_kind \<Rightarrow> string \<Rightarrow> string \<Rightarrow> string \<Rightarrow> gauge_callback list \<Rightarrow> instrument ext" where
  "create_instrument k n d u cbs =
     thn (call (CreateInstrument k n d u cbs)) (ret (Instrument k n d u cbs))"

text \<open>\<open>_create_metrics\<close>: eight instruments, each assigned to its attribute as it is made.\<close>

definition create_metrics :: "unit ext" where
  "create_metrics =
     bnd get_self (\<lambda>s.
       if meter s = None then ret ()
       else
         bnd (create_instrument Histogram ''http.server.request.duration''
                ''HTTP request duration in milliseconds'' ''ms'' [])
           (\<lambda>i. thn (set_self (\<lambda>s. s\<lparr>http_request_duration := Some i\<rparr>))
        (bnd (create_instrument Counter ''http.server.requests.total''
                ''Total number of HTTP requests'' ''1'' [])
           (\<lambda>i. thn (set_self (\<lambda>s. s\<lparr>http_requests_total := Some i\<rparr>))
        (bnd (create_instrument ObservableGauge ''system.cpu.usage''
                ''CPU usage percentage'' ''%'' [GetCpuUsage])
           (\<lambda>i. thn (set_self (\<lambda>s. s\<lparr>cpu_usage_gauge := Some i\<rparr>))
        (bnd (create_instrument ObservableGauge ''system.memory.usage''
                ''Memory usage percentage'' ''%'' [GetMemoryUsage])
           (\<lambda>i. thn (set_self (\<lambda>s. s\<lparr>memory_usage_gauge := Some i\<rparr>))
        (bnd (create_instrument ObservableGauge ''system.disk.usage''
                ''Disk usage percentage'' ''%'' [GetDiskUsage])
           (\<lambda>i. thn (set_self (\<lambda>s. s\<lparr>disk_usage_gauge := Some i\<rparr>))
        (bnd (create_instrument Histogram ''db.query.duration''
                ''Database query duration in milliseconds'' ''ms'' [])
           (\<lambda>i. thn (set_self (\<lambda>s. s\<lparr>db_query_duration := Some i\<rparr>))
        (bnd (create_instrument ObservableGauge ''app.users.active''
                ''Number of currently active users'' ''1'' [GetActiveUsersCount])
           (\<lambda>i. thn (set_self (\<lambda>s. s\<lparr>active_users_gauge := Some i\<rparr>))
        (bnd (create_instrument Counter ''app.user.sessions''
                ''User session events'' ''1'' [])
           (\<lambda>i. set_self (\<lambda>s. s\<lparr>user_sessions_counter := Some i\<rparr>)))))))))))))))))"

definition instrument_libraries :: "unit ext" where
  "instrument_libraries =
     try_except
       (thn (call (Ext ''FlaskInstrumentor().instrument_app''))
       (thn (logger Info ''[MONITORING] Flask auto-instrumentation enabled'')
       (thn (call (Ext ''RequestsInstrumentor().instrument''))
       (thn (logger Info ''[MONITORING] Requests auto-instrumentation enabled'')
         (try_except
            (thn (call (Ext ''app.app_context().__enter__''))
               (py_finally
                  (thn (call (Ext ''from app import db''))
                  (thn (call (Ext ''SQLAlchemyInstrumentor().instrument''))
                    (logger Info ''[MONITORING] SQLAlchemy auto-instrumentation enabled'')))
                  (call (Ext ''app.app_context().__exit__''))))
            (\<lambda>e. logger Warning
                    (''[MONITORING] SQLAlchemy instrumentation failed: '' @ emsg e)))))))
       (\<lambda>e. logger Warning (''[MONITORING] Auto-instrumentation partial failure: '' @ emsg e))"

text \<open>\<open>_register_flask_hooks\<close>: the three decorators hand the hooks to the application.\<close>

definition register_flask_hooks :: "unit ext" where
  "register_flask_hooks =
     thn (call (Ext ''app.before_request''))
    (thn (call (Ext ''app.after_request''))
      (call (Ext ''app.errorhandler(Exception)'')))"

definition start_system_monitoring :: "unit ext" where
  "start_system_monitoring =
     thn (call (Ext ''Thread''))
    (thn (set_self (\<lambda>s. s\<lparr>system_monitor_thread := True\<rparr>))
    (thn (call (Ext ''Thread.start''))
      (logger Info ''[MONITORING] System health monitoring thread started'')))"

text \<open>\<open>print(msg)\<close>: a write to standard output, which may raise.\<close>

definition py_print :: "string \<Rightarrow> unit ext" where
  "py_print msg = call (Print msg)"

text \<open>\<open>bool(x)\<close> of an optional string, as an f-string shows it.\<close>

definition str_bool_of :: "string option \<Rightarrow> string" where
  "str_bool_of x = (if x = None \<or> x = Some [] then ''False'' else ''True'')"

text \<open>The body of the \<open>try\<close> block of \<open>init_app\<close>.\<close>

definition init_setup :: "unit ext" where
  "init_setup =
     thn (py_print ''[DEBUG] Starting monitoring setup...'')
    (thn (call (Ext ''Resource.create''))
    (thn (py_print ''[DEBUG] Resource created'')
    (thn (try_except
            (thn (call (Ext ''trace.get_tracer''))
            (thn (set_self (\<lambda>s. s\<lparr>tracer := Some Tracer\<rparr>))
            (thn (py_print ''[DEBUG] Reusing existing tracer'')
              (logger Info ''[MONITORING] Reusing existing tracer from logging service''))))
            (\<lambda>te.
               thn (py_print (''[DEBUG] Creating new tracer, error was: '' @ emsg te))
              (thn (call (Ext ''TracerProvider''))
              (thn (call (Ext ''AzureMonitorTraceExporter''))
              (thn (call (Ext ''from opentelemetry.sdk.trace.export import BatchSpanProcessor''))
              (thn (call (Ext ''BatchSpanProcessor''))
              (thn (call (Ext ''trace_provider.add_span_processor''))
              (thn (call (Ext ''trace.set_tracer_provider''))
              (thn (call (Ext ''trace.get_tracer''))
              (thn (set_self (\<lambda>s. s\<lparr>tracer := Some Tracer\<rparr>))
                (logger Info ''[MONITORING] Created new tracer with custom processors'')))))))))))
    (thn (py_print ''[DEBUG] About to set up metrics...'')
    (thn (call (Ext ''MeterProvider''))
    (thn (call (Ext ''AzureMonitorMetricExporter''))
    (thn (call (Ext ''from opentelemetry.sdk.metrics.export import PeriodicExportingMetricReader''))
    (thn (call (Ext ''PeriodicExportingMetricReader''))
    (thn (call (Ext ''MeterProvider''))
    (thn (call (Ext ''metrics.set_meter_provider''))
    (thn (call (Ext ''metrics.get_meter''))
    (thn (set_self (\<lambda>s. s\<lparr>meter := Some Meter\<rparr>))
    (thn (py_print ''[DEBUG] Metrics set up complete'')
    (thn create_metrics
    (thn (py_print ''[DEBUG] Metric instruments created'')
    (thn instrument_libraries
    (thn (py_print ''[DEBUG] Libraries instrumented'')
    (thn register_flask_hooks
    (thn (py_print ''[DEBUG] Flask hooks registered'')
    (thn start_system_monitoring
    (thn (py_print ''[DEBUG] System monitoring started'')
    (thn (set_self (\<lambda>s. s\<lparr>enabled := True\<rparr>))
    (thn (logger Info ''[MONITORING] Enhanced monitoring initialized successfully'')
      (logger Info
         ''[MONITORING] Tracking: Performance, System Health, Database, Errors''))))))))))))))))))))))))"

text \<open>
  \<open>init_app(app)\<close>. The first two \<open>print\<close> calls and the one of the early return stand
  outside the \<open>try\<close> block; the handler prints, prints the traceback, logs the error
  and leaves the service disabled.
\<close>

definition init_app :: "flask_app \<Rightarrow> unit ext" where
  "init_app a =
     thn (py_print ''[DEBUG] MonitoringService.init_app() called'')
    (thn (set_self (\<lambda>s. s\<lparr>app := Some a\<rparr>))
    (thn (set_self (\<lambda>s. s\<lparr>connection_string :=
                            map_of (config a) ''APPINSIGHTS_CONNECTION_STRING''\<rparr>))
      (bnd get_self (\<lambda>s.
         thn (py_print (''[DEBUG] Connection string found: '' @
                str_bool_of (connection_string s)))
           (if connection_string s = None \<or> connection_string s = Some []
            then thn (logger Warning
                        ''[MONITORING] No Application Insights connection string configured'')
                   (py_print ''[DEBUG] No connection string, returning early'')
            else
              try_except init_setup
                (\<lambda>e. thn (py_print (''[DEBUG] ERROR in monitoring setup: '' @ emsg e))
                       (thn (call (Ext ''import traceback''))
                       (thn (call (Ext ''traceback.print_exc''))
                       (thn (logger Error (''[MONITORING] Failed to initialize: '' @ emsg e))
                         (set_self (\<lambda>s. s\<lparr>enabled := False\<rparr>)))))))))))"


text \<open>A fresh run: a new service object, nothing called and nothing logged yet.\<close>

definition fresh :: world where
  "fresh = \<lparr> svc = MonitoringService, ncalls = 0, performed = [], logged = [] \<rparr>"

text \<open>No external call raises.\<close>

definition no_faults :: faults where
  "no_faults = (\<lambda>n op. None)"

subsection \<open>Notions used in the statements\<close>

text \<open>The records that reach a histogram or a counter, among the calls of a run.\<close>

fun is_metric_op :: "ext_op \<Rightarrow> bool" where
  "is_metric_op (HistogramRecord n v as) = True"
| "is_metric_op (CounterAdd n v as) = True"
| "is_metric_op other = False"

definition metric_ops :: "world \<Rightarrow> ext_op list" where
  "metric_ops st = filter is_metric_op (performed st)"

text \<open>A computation leaves an observation \<open>g\<close> of the state as it found it.\<close>

definition preserves :: "(world \<Rightarrow> 'b) \<Rightarrow> 'a ext \<Rightarrow> bool" where
  "preserves g m = (\<forall>\<rho> st. g (snd (m \<rho> st)) = g st)"

text \<open>A run in which every iteration over the dictionary is disturbed.\<close>

definition iteration_disturbed :: faults where
  "iteration_disturbed =
     (\<lambda>n op. if op = dict_iteration
               then Some (PyError ''RuntimeError'' ''dictionary changed size during iteration'')
               else None)"

text \<open>A service whose only entry is older than the timeout at the time 1000.\<close>

definition stale :: world where
  "stale = \<lparr> svc = MonitoringService\<lparr>active_users := [(1, 0)]\<rparr>,
             ncalls = 0, performed = [], logged = [] \<rparr>"


text \<open>The dictionary of the tracker, read off the state of a run.\<close>

definition tracker_of :: "world \<Rightarrow> (user_id, timestamp) dict" where
  "tracker_of st = active_users (svc st)"


text \<open>The four observable gauges, as \<open>_create_metrics\<close> makes them.\<close>

definition declared_gauges :: "instrument list" where
  "declared_gauges =
     [Instrument ObservableGauge ''system.cpu.usage'' ''CPU usage percentage'' ''%''
        [GetCpuUsage],
      Instrument ObservableGauge ''system.memory.usage'' ''Memory usage percentage'' ''%''
        [GetMemoryUsage],
      Instrument ObservableGauge ''system.disk.usage'' ''Disk usage percentage'' ''%''
        [GetDiskUsage],
      Instrument ObservableGauge ''app.users.active'' ''Number of currently active users''
        ''1'' [GetActiveUsersCount]]"

text \<open>Runs in which the CPU sampler raises at every call, and in which every call raises.\<close>

definition cpu_broken :: faults where
  "cpu_broken = (\<lambda>n op. if op = Ext ''psutil.cpu_percent''
                         then Some (PyError ''RuntimeError'' ''no cpu'') else None)"

definition sdk_down :: faults where
  "sdk_down = (\<lambda>n op. Some (PyError ''ConnectionError'' ''backend unreachable''))"

text \<open>
  An application with a connection string, and the state of the run after its
  initialisation when no external call raises.
\<close>

definition configured_app :: flask_app where
  "configured_app = Flask [(''APPINSIGHTS_CONNECTION_STRING'', ''InstrumentationKey=0'')]"

definition ready :: world where
  "ready = snd (init_app configured_app no_faults fresh)"

section \<open>Rounding to doubles\<close>

lemma rne_of_int: "rne (of_int n) = n"
  by (simp add: rne_def)







lemma ulp_pos: "0 < ulp x"
  by (simp add: ulp_def)


lemma binade:
  assumes "0 < x"
  shows "2 powr of_int \<lfloor>log 2 x\<rfloor> \<le> x" and "x < 2 powr (of_int \<lfloor>log 2 x\<rfloor> + 1)"
proof -
  have "\<lfloor>log 2 x\<rfloor> = \<lfloor>log 2 x\<rfloor>" ..
  then have "2 powr of_int \<lfloor>log 2 x\<rfloor> \<le> x \<and> x < 2 powr of_int (\<lfloor>log 2 x\<rfloor> + 1)"
    using floor_log_eq_powr_iff [of x 2 "\<lfloor>log 2 x\<rfloor>"] assms by simp
  then show "2 powr of_int \<lfloor>log 2 x\<rfloor> \<le> x" and "x < 2 powr (of_int \<lfloor>log 2 x\<rfloor> + 1)"
    by simp_all
qed





lemma ulp_mono: "0 < x \<Longrightarrow> x \<le> y \<Longrightarrow> ulp x \<le> ulp y"
proof -
  assume x: "0 < x" and le: "x \<le> y"
  then have "log 2 x \<le> log 2 y" by simp
  then have "\<lfloor>log 2 x\<rfloor> \<le> \<lfloor>log 2 y\<rfloor>" by (rule floor_mono)
  with x le show ?thesis by (simp add: ulp_def)
qed





lemma round53_exact:
  assumes "x / ulp x = of_int m"
  shows "round53 x = x"
proof (cases "x = 0")
  case True
  then show ?thesis by (simp add: round53_def)
next
  case False
  from assms ulp_pos [of x] have "of_int m * ulp x = x"
    by (metis less_irrefl nonzero_divide_eq_eq)
  with False assms show ?thesis by (simp add: round53_def rne_of_int)
qed

lemma round53_of_int:
  assumes small: "\<bar>n\<bar> < 2 ^ 53"
  shows "round53 (of_int n) = of_int n"
proof (cases "n = 0")
  case True
  then show ?thesis by (simp add: round53_def)
next
  case False
  define x where "x = (of_int \<bar>n\<bar> :: real)"
  define e where "e = \<lfloor>log 2 x\<rfloor>"
  from False have x: "0 < x" by (simp add: x_def)
  from small have "x < 2 ^ 53"
    unfolding x_def by (metis of_int_less_iff of_int_numeral of_int_power)
  then have x53: "x < 2 powr 53" by simp
  from binade(1) [OF x] have "2 powr of_int e \<le> x" by (simp add: e_def)
  with x53 have lt: "(2::real) powr of_int e < 2 powr 53" by linarith
  have e52: "e \<le> 52"
  proof (rule ccontr)
    assume "\<not> e \<le> 52"
    then have "(53::real) \<le> of_int e" by simp
    then have "(2::real) powr 53 \<le> 2 powr of_int e" by (intro powr_mono) simp_all
    with lt show False by linarith
  qed
  define k where "k = nat (52 - e)"
  have "(of_int e :: real) - 52 = - real k" using e52 by (simp add: k_def)
  then have "ulp (of_int n) = 2 powr (- real k)"
    by (simp add: ulp_def e_def x_def)
  also have "\<dots> = inverse (2 ^ k)"
    by (simp add: powr_minus powr_realpow)
  finally have u: "ulp (of_int n) = inverse (2 ^ k)" .
  have "of_int n / ulp (of_int n) = of_int (n * 2 ^ k)"
    by (simp add: u divide_inverse)
  then show ?thesis by (rule round53_exact)
qed

lemma round53_numeral [simp]:
  "numeral w < (2::int) ^ 53 \<Longrightarrow> round53 (numeral w) = numeral w"
  using round53_of_int [of "numeral w"] by simp

lemma round53_neg_numeral [simp]:
  "numeral w < (2::int) ^ 53 \<Longrightarrow> round53 (- numeral w) = - numeral w"
  using round53_of_int [of "- numeral w"] by simp

lemma round53_0 [simp]: "round53 0 = 0"
  by (simp add: round53_def)

lemma round53_1 [simp]: "round53 1 = 1"
  using round53_of_int [of 1] by simp





section \<open>Properties of the dictionary operations\<close>



lemma foldl_dict_pop:
  "foldl dict_pop d ks = filter (\<lambda>(k, v). k \<notin> set ks) d"
proof (induction ks arbitrary: d)
  case Nil
  then show ?case by simp
next
  case (Cons k ks)
  have "foldl dict_pop (dict_pop d k) ks =
        filter (\<lambda>(k', v). k' \<notin> set ks) (filter (\<lambda>(k', v'). k' \<noteq> k) d)"
    by (simp add: Cons.IH dict_pop_def)
  also have "\<dots> = filter (\<lambda>(k', v). k' \<notin> set (k # ks)) d"
    by (auto intro: filter_cong)
  finally show ?case by simp
qed




















lemma get_active_users_count_dict:
  "active_users (snd (get_active_users_count t s)) =
   filter (\<lambda>(uid, last_active). dsub t last_active \<le> active_user_timeout s) (active_users s)"
  by (simp add: get_active_users_count_def Let_def)







text \<open>
  Claim C3. A second read at the same clock value, with no touch in between, yields the
  same observation as the first and leaves the dictionary as the first read left it.
\<close>

theorem count_idempotent:
  "get_active_users_count t (snd (get_active_users_count t s)) =
     (fst (get_active_users_count t s), snd (get_active_users_count t s))"
  by (simp add: get_active_users_count_def Let_def)






section \<open>Running computations\<close>

lemma ret_run: "ret x \<rho> st = (Inr x, st)"
  by (simp add: ret_def)

lemma py_raise_run: "py_raise e \<rho> st = (Inl e, st)"
  by (simp add: py_raise_def)

lemma get_self_run: "get_self \<rho> st = (Inr (svc st), st)"
  by (simp add: get_self_def)

lemma set_self_run: "set_self f \<rho> st = (Inr (), st\<lparr>svc := f (svc st)\<rparr>)"
  by (simp add: set_self_def)

lemma logger_run: "logger lvl msg \<rho> st = (Inr (), st\<lparr>logged := logged st @ [(lvl, msg)]\<rparr>)"
  by (simp add: logger_def)

lemma bnd_Inr: "m \<rho> st = (Inr x, st') \<Longrightarrow> bnd m f \<rho> st = f x \<rho> st'"
  by (simp add: bnd_def)

lemma bnd_Inl: "m \<rho> st = (Inl e, st') \<Longrightarrow> bnd m f \<rho> st = (Inl e, st')"
  by (simp add: bnd_def)

lemma thn_Inr: "m \<rho> st = (Inr x, st') \<Longrightarrow> thn m n \<rho> st = n \<rho> st'"
  by (simp add: thn_def bnd_def)

lemma thn_Inl: "m \<rho> st = (Inl e, st') \<Longrightarrow> thn m n \<rho> st = (Inl e, st')"
  by (simp add: thn_def bnd_def)

lemma bnd_get_self: "bnd get_self f \<rho> st = f (svc st) \<rho> st"
  by (simp add: bnd_def get_self_def)

lemma call_None:
  "\<rho> (ncalls st) op = None \<Longrightarrow>
   call op \<rho> st = (Inr (), st\<lparr>ncalls := Suc (ncalls st), performed := performed st @ [op]\<rparr>)"
  by (simp add: call_def)

lemma call_Some:
  "\<rho> (ncalls st) op = Some e \<Longrightarrow> call op \<rho> st = (Inl e, st\<lparr>ncalls := Suc (ncalls st)\<rparr>)"
  by (simp add: call_def)

text \<open>A \<open>try\<close> block whose handler returns, returns.\<close>

lemma try_except_returns:
  assumes "\<And>e \<rho> st. \<exists>x. fst (h e \<rho> st) = Inr x"
  shows "\<exists>x. fst (try_except m h \<rho> st) = Inr x"
proof (cases "m \<rho> st")
  case (Pair r st')
  show ?thesis
  proof (cases r)
    case (Inl e)
    with Pair assms [of e \<rho> st'] show ?thesis by (simp add: try_except_def)
  next
    case (Inr x)
    with Pair show ?thesis by (simp add: try_except_def)
  qed
qed

lemma try_except_unit:
  fixes m :: "unit ext"
  assumes "\<And>e \<rho> st. \<exists>x. fst (h e \<rho> st) = Inr x"
  shows "fst (try_except m h \<rho> st) = Inr ()"
  using try_except_returns [of h m \<rho> st, OF assms] by simp

lemma logger_returns: "\<exists>x. fst (logger lvl msg \<rho> st) = Inr x"
  by (simp add: logger_run)

lemma ret_returns: "\<exists>y. fst (ret x \<rho> st) = Inr y"
  by (simp add: ret_run)

lemma thn_of_unit:
  fixes m :: "unit ext"
  assumes "fst (m \<rho> st) = Inr ()"
  shows "thn m n \<rho> st = n \<rho> (snd (m \<rho> st))"
  using assms by (cases "m \<rho> st") (simp add: thn_def bnd_def)

section \<open>What a computation leaves untouched\<close>

lemma preserves_ret: "preserves g (ret x)"
  by (simp add: preserves_def ret_run)

lemma preserves_py_raise: "preserves g (py_raise e)"
  by (simp add: preserves_def py_raise_run)

lemma preserves_get_self: "preserves g get_self"
  by (simp add: preserves_def get_self_run)

lemma preserves_bnd:
  assumes "preserves g m" and "\<And>x. preserves g (f x)"
  shows "preserves g (bnd m f)"
proof -
  have "g (snd (bnd m f \<rho> st)) = g st" for \<rho> st
  proof (cases "m \<rho> st")
    case (Pair r st')
    from assms(1) Pair have a: "g st' = g st"
      by (metis preserves_def snd_conv)
    show ?thesis
    proof (cases r)
      case (Inl e)
      with Pair a show ?thesis by (simp add: bnd_def)
    next
      case (Inr x)
      from assms(2) [of x] have "g (snd (f x \<rho> st')) = g st'" by (simp add: preserves_def)
      with Pair Inr a show ?thesis by (simp add: bnd_def)
    qed
  qed
  then show ?thesis by (simp add: preserves_def)
qed

lemma preserves_thn: "preserves g m \<Longrightarrow> preserves g n \<Longrightarrow> preserves g (thn m n)"
  unfolding thn_def by (rule preserves_bnd)

lemma preserves_try_except:
  assumes "preserves g m" and "\<And>e. preserves g (h e)"
  shows "preserves g (try_except m h)"
proof -
  have "g (snd (try_except m h \<rho> st)) = g st" for \<rho> st
  proof (cases "m \<rho> st")
    case (Pair r st')
    from assms(1) Pair have a: "g st' = g st"
      by (metis preserves_def snd_conv)
    show ?thesis
    proof (cases r)
      case (Inl e)
      from assms(2) [of e] have "g (snd (h e \<rho> st')) = g st'" by (simp add: preserves_def)
      with Pair Inl a show ?thesis by (simp add: try_except_def)
    next
      case (Inr x)
      with Pair a show ?thesis by (simp add: try_except_def)
    qed
  qed
  then show ?thesis by (simp add: preserves_def)
qed

lemma preserves_py_finally:
  assumes "preserves g m" and "preserves g fin"
  shows "preserves g (py_finally m fin)"
proof -
  have "g (snd (py_finally m fin \<rho> st)) = g st" for \<rho> st
  proof (cases "m \<rho> st")
    case (Pair r st')
    from assms(1) Pair have a: "g st' = g st"
      by (metis preserves_def snd_conv)
    from assms(2) have b: "g (snd (fin \<rho> st')) = g st'" by (simp add: preserves_def)
    show ?thesis
    proof (cases "fin \<rho> st'")
      case (Pair r' st'')
      with b have "g st'' = g st'" by simp
      with Pair \<open>m \<rho> st = (r, st')\<close> a show ?thesis
        by (cases r') (simp_all add: py_finally_def)
    qed
  qed
  then show ?thesis by (simp add: preserves_def)
qed

lemma preserves_svc_call: "preserves svc (call op)"
  by (simp add: preserves_def call_def split: option.splits)

lemma preserves_svc_logger: "preserves svc (logger lvl msg)"
  by (simp add: preserves_def logger_run)

lemma preserves_metric_call: "\<not> is_metric_op op \<Longrightarrow> preserves metric_ops (call op)"
  by (simp add: preserves_def call_def metric_ops_def split: option.splits)

lemma preserves_metric_logger: "preserves metric_ops (logger lvl msg)"
  by (simp add: preserves_def logger_run metric_ops_def)

lemma preserves_with_span:
  assumes "preserves g (call (StartSpan name))" and "preserves g (call (EndSpan name))"
    and "\<And>sp. preserves g (body sp)"
  shows "preserves g (with_span name body)"
  unfolding with_span_def
  by (intro preserves_bnd preserves_py_finally assms)

lemma preserves_svc_py_str: "preserves g (py_str v)"
  by (cases v) (simp_all add: py_str_def preserves_ret preserves_py_raise)

lemma preserves_svc_set_attributes: "preserves svc (set_attributes sp ps)"
  by (induction ps)
     (auto intro!: preserves_ret preserves_bnd preserves_thn preserves_svc_call
        preserves_svc_py_str)

section \<open>The request hooks and the tracking calls\<close>

lemma after_request_result: "fst (after_request ctx now resp \<rho> st) = Inr resp"
proof (cases "enabled (svc st)")
  case False
  then show ?thesis by (simp add: after_request_def bnd_get_self ret_run)
next
  case True
  let ?t1 = "try_except (after_request_user_context ctx)
               (\<lambda>e. logger Debug (''[MONITORING] Error in after_request user context: '' @ emsg e))"
  let ?t2 = "try_except (after_request_metrics ctx now resp)
               (\<lambda>e. logger Warning (''[MONITORING] Error tracking request: '' @ emsg e))"
  have r1: "fst (?t1 \<rho> st) = Inr ()"
    by (rule try_except_unit) (rule logger_returns)
  have r2: "fst (?t2 \<rho> (snd (?t1 \<rho> st))) = Inr ()"
    by (rule try_except_unit) (rule logger_returns)
  have "after_request ctx now resp \<rho> st = thn ?t1 (thn ?t2 (ret resp)) \<rho> st"
    using True by (simp add: after_request_def bnd_get_self)
  also have "\<dots> = thn ?t2 (ret resp) \<rho> (snd (?t1 \<rho> st))"
    using r1 by (rule thn_of_unit)
  also have "\<dots> = ret resp \<rho> (snd (?t2 \<rho> (snd (?t1 \<rho> st))))"
    using r2 by (rule thn_of_unit)
  finally show ?thesis by (simp add: ret_run)
qed

lemma track_custom_event_result: "fst (track_custom_event name props \<rho> st) = Inr ()"
proof (cases "\<not> enabled (svc st) \<or> tracer (svc st) = None")
  case True
  then show ?thesis by (auto simp: track_custom_event_def bnd_get_self ret_run)
next
  case False
  then obtain tr where en: "enabled (svc st)" and tr: "tracer (svc st) = Some tr" by auto
  then have "track_custom_event name props \<rho> st =
      try_except
        (with_span name (\<lambda>sp.
           case props of
             None \<Rightarrow> ret ()
           | Some ps \<Rightarrow> (if ps = [] then ret () else set_attributes sp ps)))
        (\<lambda>e. logger Warning (''[MONITORING] Error tracking custom event: '' @ emsg e)) \<rho> st"
    by (simp add: track_custom_event_def bnd_get_self)
  then show ?thesis
    by (simp only: try_except_unit [OF logger_returns])
qed

lemma track_database_query_result:
  "fst (track_database_query query_name duration_ms success \<rho> st) = Inr ()"
proof (cases "db_query_duration (svc st)")
  case None
  then show ?thesis by (simp add: track_database_query_def bnd_get_self ret_run)
next
  case (Some h)
  show ?thesis
  proof (cases "enabled (svc st)")
    case False
    with Some show ?thesis by (simp add: track_database_query_def bnd_get_self ret_run)
  next
    case True
    with Some have "track_database_query query_name duration_ms success \<rho> st =
        try_except
          (call (HistogramRecord (iname h) duration_ms
             [(''db.query.name'', AStr query_name), (''db.query.success'', ABool success)]))
          (\<lambda>e. logger Warning (''[MONITORING] Error tracking database query: '' @ emsg e)) \<rho> st"
      by (simp add: track_database_query_def bnd_get_self)
    then show ?thesis
      by (simp only: try_except_unit [OF logger_returns])
  qed
qed

lemma track_user_session_result:
  "fst (track_user_session ctx uid event_type props \<rho> st) = Inr ()"
proof (cases "\<not> enabled (svc st) \<or> tracer (svc st) = None")
  case True
  then show ?thesis by (auto simp: track_user_session_def bnd_get_self ret_run)
next
  case False
  then obtain tr where en: "enabled (svc st)" and tr: "tracer (svc st) = Some tr" by auto
  show ?thesis
    unfolding track_user_session_def bnd_get_self
    using en tr by (simp add: try_except_unit [OF logger_returns])
qed

lemma track_custom_event_disabled:
  "\<not> enabled (svc st) \<Longrightarrow> track_custom_event name props \<rho> st = (Inr (), st)"
  by (simp add: track_custom_event_def bnd_get_self ret_run)

lemma track_database_query_disabled:
  "\<not> enabled (svc st) \<Longrightarrow>
   track_database_query query_name duration_ms success \<rho> st = (Inr (), st)"
  by (simp add: track_database_query_def bnd_get_self ret_run split: option.splits)

lemma track_user_session_disabled:
  "\<not> enabled (svc st) \<Longrightarrow> track_user_session ctx uid event_type props \<rho> st = (Inr (), st)"
  by (simp add: track_user_session_def bnd_get_self ret_run)

lemma after_request_disabled:
  "\<not> enabled (svc st) \<Longrightarrow> after_request ctx now resp \<rho> st = (Inr resp, st)"
  by (simp add: after_request_def bnd_get_self ret_run)

lemma handle_exception_result: "fst (handle_exception error \<rho> st) = Inl error"
proof -
  let ?rec = "if enabled (svc st) \<and> tracer (svc st) \<noteq> None
            then try_except
                   (with_span ''error_handler'' (\<lambda>sp.
                      thn (call (SetAttribute sp ''error.type'' (AStr (etype error))))
                     (thn (call (SetAttribute sp ''error.message'' (AStr (emsg error))))
                       (call (RecordException sp error)))))
                   (\<lambda>e. ret ())
            else ret ()"
  have r: "fst (?rec \<rho> st) = Inr ()"
    by (simp add: try_except_unit [OF ret_returns] ret_run)
  have "handle_exception error \<rho> st = thn ?rec (py_raise error) \<rho> st"
    by (simp add: handle_exception_def bnd_get_self)
  also have "\<dots> = py_raise error \<rho> (snd (?rec \<rho> st))"
    using r by (rule thn_of_unit)
  finally show ?thesis by (simp add: py_raise_run)
qed

lemma handle_exception_records:
  assumes "enabled (svc st)" and "tracer (svc st) \<noteq> None"
  shows "performed (snd (handle_exception error no_faults st)) =
         performed st @
           [StartSpan ''error_handler'',
            SetAttribute (NewSpan ''error_handler'') ''error.type'' (AStr (etype error)),
            SetAttribute (NewSpan ''error_handler'') ''error.message'' (AStr (emsg error)),
            RecordException (NewSpan ''error_handler'') error,
            EndSpan ''error_handler'']"
proof -
  from assms obtain tr where tr: "tracer (svc st) = Some tr" by auto
  with assms(1) show ?thesis
    by (simp add: handle_exception_def get_self_run thn_def bnd_def try_except_def
        with_span_def py_finally_def call_def no_faults_def py_raise_run)
qed

lemma handle_exception_disabled:
  "\<not> enabled (svc st) \<Longrightarrow> handle_exception error \<rho> st = (Inl error, st)"
  by (simp add: handle_exception_def get_self_run thn_def bnd_def ret_run py_raise_run)

section \<open>The gauge callbacks\<close>

lemma get_cpu_usage_result:
  "fst (get_cpu_usage smp \<rho> st) =
   Inr (case \<rho> (ncalls st) (Ext ''psutil.cpu_percent'') of
          None \<Rightarrow> [Observation (cpu_percent smp)]
        | Some e \<Rightarrow> [])"
  by (simp add: get_cpu_usage_def try_except_def thn_def bnd_def call_def ret_run logger_run
      split: option.splits)

lemma get_memory_usage_result:
  "fst (get_memory_usage smp \<rho> st) =
   Inr (case \<rho> (ncalls st) (Ext ''psutil.virtual_memory'') of
          None \<Rightarrow> [Observation (memory_percent smp)]
        | Some e \<Rightarrow> [])"
  by (simp add: get_memory_usage_def try_except_def thn_def bnd_def call_def ret_run logger_run
      split: option.splits)

lemma get_disk_usage_result:
  "fst (get_disk_usage smp \<rho> st) =
   Inr (case \<rho> (ncalls st) (Ext ''psutil.disk_usage'') of
          None \<Rightarrow> [Observation (disk_percent smp)]
        | Some e \<Rightarrow> [])"
  by (simp add: get_disk_usage_def try_except_def thn_def bnd_def call_def ret_run logger_run
      split: option.splits)

lemma get_active_users_count_callback_result:
  "fst (get_active_users_count_callback smp \<rho> st) =
   Inr (case \<rho> (ncalls st) dict_iteration of
          None \<Rightarrow> fst (get_active_users_count (clock smp) (svc st))
        | Some e \<Rightarrow> [])"
  by (simp add: get_active_users_count_callback_def try_except_def thn_def bnd_def call_def
      ret_run logger_run split: option.splits)

lemma invoke_callback_returns: "\<exists>obs. fst (invoke_callback smp cb \<rho> st) = Inr obs"
  by (cases cb)
     (simp_all add: get_cpu_usage_result get_memory_usage_result get_disk_usage_result
        get_active_users_count_callback_result)

lemma collect_callbacks_returns:
  "\<exists>obs. fst (collect_callbacks smp cs \<rho> st) = Inr obs"
proof (induction cs arbitrary: st)
  case Nil
  show ?case by (simp add: ret_run)
next
  case (Cons c cs)
  obtain r st1 where i: "invoke_callback smp (snd c) \<rho> st = (r, st1)"
    by (cases "invoke_callback smp (snd c) \<rho> st")
  with invoke_callback_returns [of smp "snd c" \<rho> st] obtain obs where r: "r = Inr obs"
    by auto
  obtain r2 st2 where c2: "collect_callbacks smp cs \<rho> st1 = (r2, st2)"
    by (cases "collect_callbacks smp cs \<rho> st1")
  with Cons.IH [of st1] obtain rest where r2: "r2 = Inr rest" by auto
  show ?case
    by (simp add: bnd_def i r c2 r2 ret_run)
qed

lemma flush_gauges_returns: "\<exists>obs. fst (flush_gauges smp \<rho> st) = Inr obs"
  by (simp add: flush_gauges_def bnd_get_self collect_callbacks_returns)

lemma flush_ticks_returns:
  "\<exists>obs. fst (flush_ticks smps \<rho> st) = Inr obs \<and> length obs = length smps"
proof (induction smps arbitrary: st)
  case Nil
  show ?case by (simp add: ret_run)
next
  case (Cons smp smps)
  obtain r st1 where i: "flush_gauges smp \<rho> st = (r, st1)"
    by (cases "flush_gauges smp \<rho> st")
  with flush_gauges_returns [of smp \<rho> st] obtain obs where r: "r = Inr obs" by auto
  obtain r2 st2 where c2: "flush_ticks smps \<rho> st1 = (r2, st2)"
    by (cases "flush_ticks smps \<rho> st1")
  with Cons.IH [of st1] obtain rest where r2: "r2 = Inr rest" "length rest = length smps"
    by auto
  show ?case
    by (simp add: bnd_def i r c2 r2 ret_run)
qed

lemma after_request_user_context_metric:
  "preserves metric_ops
     (try_except (after_request_user_context ctx)
        (\<lambda>e. logger Debug (''[MONITORING] Error in after_request user context: '' @ emsg e)))"
  unfolding after_request_user_context_def
  by (cases "g_user_id ctx")
     (auto intro!: preserves_try_except preserves_thn preserves_ret preserves_metric_call
        preserves_metric_logger)

lemma after_request_user_context_svc:
  "preserves svc
     (try_except (after_request_user_context ctx)
        (\<lambda>e. logger Debug (''[MONITORING] Error in after_request user context: '' @ emsg e)))"
  unfolding after_request_user_context_def
  by (cases "g_user_id ctx")
     (auto intro!: preserves_try_except preserves_thn preserves_ret preserves_svc_call
        preserves_svc_logger)

lemma after_request_metrics_run:
  assumes start: "g_request_start_time ctx = Some t0"
    and h: "http_request_duration (svc st) = Some h"
    and c: "http_requests_total (svc st) = Some c"
    and ok: "\<forall>n op. is_metric_op op \<longrightarrow> \<rho> n op = None"
  shows "metric_ops (snd (try_except (after_request_metrics ctx now resp)
           (\<lambda>e. logger Warning (''[MONITORING] Error tracking request: '' @ emsg e)) \<rho> st)) =
         metric_ops st @
           [HistogramRecord (iname h) ((now - t0) * 1000)
              [(''http.method'', AStr (request_method ctx)),
               (''http.route'', AStr (or_unknown (request_endpoint ctx))),
               (''http.status_code'', AInt (status_code resp))],
            CounterAdd (iname c) 1
              [(''http.method'', AStr (request_method ctx)),
               (''http.status_code'', AInt (status_code resp))]]"
proof -
  have a: "\<rho> n (HistogramRecord x y z) = None" for n x y z using ok by simp
  have b: "\<rho> n (CounterAdd x y z) = None" for n x y z using ok by simp
  show ?thesis
    by (simp add: after_request_metrics_def start h c get_self_run thn_def bnd_def
        try_except_def call_def a b metric_ops_def)
qed

lemma after_request_records:
  assumes en: "enabled (svc st)"
    and start: "g_request_start_time ctx = Some t0"
    and h: "http_request_duration (svc st) = Some h"
    and c: "http_requests_total (svc st) = Some c"
    and ok: "\<forall>n op. is_metric_op op \<longrightarrow> \<rho> n op = None"
  shows "metric_ops (snd (after_request ctx now resp \<rho> st)) =
         metric_ops st @
           [HistogramRecord (iname h) ((now - t0) * 1000)
              [(''http.method'', AStr (request_method ctx)),
               (''http.route'', AStr (or_unknown (request_endpoint ctx))),
               (''http.status_code'', AInt (status_code resp))],
            CounterAdd (iname c) 1
              [(''http.method'', AStr (request_method ctx)),
               (''http.status_code'', AInt (status_code resp))]]"
proof -
  let ?t1 = "try_except (after_request_user_context ctx)
               (\<lambda>e. logger Debug (''[MONITORING] Error in after_request user context: '' @ emsg e))"
  let ?t2 = "try_except (after_request_metrics ctx now resp)
               (\<lambda>e. logger Warning (''[MONITORING] Error tracking request: '' @ emsg e))"
  let ?st1 = "snd (?t1 \<rho> st)"
  have r1: "fst (?t1 \<rho> st) = Inr ()"
    by (rule try_except_unit) (rule logger_returns)
  have r2: "fst (?t2 \<rho> ?st1) = Inr ()"
    by (rule try_except_unit) (rule logger_returns)
  have m1: "metric_ops ?st1 = metric_ops st"
    using after_request_user_context_metric [of ctx] by (simp add: preserves_def)
  have s1: "svc ?st1 = svc st"
    using after_request_user_context_svc [of ctx] by (simp add: preserves_def)
  have "after_request ctx now resp \<rho> st = thn ?t1 (thn ?t2 (ret resp)) \<rho> st"
    using en by (simp add: after_request_def bnd_get_self)
  also have "\<dots> = thn ?t2 (ret resp) \<rho> ?st1"
    using r1 by (rule thn_of_unit)
  also have "\<dots> = ret resp \<rho> (snd (?t2 \<rho> ?st1))"
    using r2 by (rule thn_of_unit)
  finally have "snd (after_request ctx now resp \<rho> st) = snd (?t2 \<rho> ?st1)"
    by (simp add: ret_run)
  moreover have "metric_ops (snd (?t2 \<rho> ?st1)) = metric_ops ?st1 @
           [HistogramRecord (iname h) ((now - t0) * 1000)
              [(''http.method'', AStr (request_method ctx)),
               (''http.route'', AStr (or_unknown (request_endpoint ctx))),
               (''http.status_code'', AInt (status_code resp))],
            CounterAdd (iname c) 1
              [(''http.method'', AStr (request_method ctx)),
               (''http.status_code'', AInt (status_code resp))]]"
    by (rule after_request_metrics_run [OF start _ _ ok]) (simp_all only: s1 h c)
  ultimately show ?thesis by (simp only: m1)
qed

section \<open>Eviction\<close>

lemma track_user_activity_body_no_expired:
  assumes "p \<in> set (active_users (track_user_activity_body uid t_store now s))"
  shows "\<not> dsub now (snd p) > active_user_timeout s"
proof
  assume late: "dsub now (snd p) > active_user_timeout s"
  let ?d = "dict_setitem (active_users s) uid t_store"
  let ?gone = "map fst (filter (\<lambda>(uid', last_active).
      dsub now last_active > active_user_timeout s) ?d)"
  from assms have "p \<in> set (foldl dict_pop ?d ?gone)"
    by (simp add: track_user_activity_body_def Let_def)
  then have "p \<in> set (filter (\<lambda>(k, v). k \<notin> set ?gone) ?d)"
    by (simp only: foldl_dict_pop)
  then have m: "p \<in> set ?d" and out: "fst p \<notin> set ?gone"
    by (auto simp: case_prod_beta)
  from m late have "fst p \<in> set ?gone"
    by (force simp: case_prod_beta)
  with out show False by contradiction
qed

lemma get_active_users_count_no_expired:
  "p \<in> set (active_users (snd (get_active_users_count now s))) \<Longrightarrow>
   \<not> dsub now (snd p) > active_user_timeout s"
  by (auto simp: get_active_users_count_dict)

lemma get_active_users_count_value:
  "fst (get_active_users_count now s) =
   [Observation (real (length (filter (\<lambda>p. \<not> dsub now (snd p) > active_user_timeout s)
      (active_users s))))]"
proof -
  have "filter (\<lambda>(uid, last_active). dsub now last_active \<le> active_user_timeout s)
          (active_users s) =
        filter (\<lambda>p. \<not> dsub now (snd p) > active_user_timeout s) (active_users s)"
    by (rule filter_cong) auto
  then show ?thesis
    by (simp add: get_active_users_count_def Let_def dict_len_def)
qed

text \<open>The method when the iteration is left alone, and when it is disturbed.\<close>

lemma track_user_activity_undisturbed:
  assumes "\<rho> (ncalls st) dict_iteration = None"
  shows "fst (track_user_activity uid t_store now \<rho> st) = Inr ()"
    and "svc (snd (track_user_activity uid t_store now \<rho> st)) =
         track_user_activity_body uid t_store now (svc st)"
  using assms
  by (simp_all add: track_user_activity_def track_user_activity_body_def Let_def
      try_except_def thn_def bnd_def set_self_def call_def)

lemma track_user_activity_disturbed:
  assumes "\<rho> (ncalls st) dict_iteration = Some e"
  shows "fst (track_user_activity uid t_store now \<rho> st) = Inr ()"
    and "svc (snd (track_user_activity uid t_store now \<rho> st)) =
         (svc st)\<lparr>active_users := dict_setitem (active_users (svc st)) uid t_store\<rparr>"
  using assms
  by (simp_all add: track_user_activity_def try_except_def thn_def bnd_def set_self_def
      call_def logger_def)


lemma get_active_users_count_callback_undisturbed:
  assumes "\<rho> (ncalls st) dict_iteration = None"
  shows "fst (get_active_users_count_callback smp \<rho> st) =
         Inr (fst (get_active_users_count (clock smp) (svc st)))"
    and "svc (snd (get_active_users_count_callback smp \<rho> st)) =
         snd (get_active_users_count (clock smp) (svc st))"
  using assms
  by (simp_all add: get_active_users_count_callback_def try_except_def thn_def bnd_def
      call_def)

lemma get_active_users_count_callback_disturbed:
  assumes "\<rho> (ncalls st) dict_iteration = Some e"
  shows "fst (get_active_users_count_callback smp \<rho> st) = Inr []"
    and "svc (snd (get_active_users_count_callback smp \<rho> st)) = svc st"
  using assms
  by (simp_all add: get_active_users_count_callback_def try_except_def thn_def bnd_def
      call_def logger_def ret_def)

lemma preserves_py_str_int: "preserves g (py_str_int i)"
  by (simp add: py_str_int_def preserves_ret preserves_py_raise)

lemmas preserves_svc_intros =
  preserves_ret preserves_py_raise preserves_get_self preserves_bnd preserves_thn
  preserves_try_except preserves_py_finally preserves_with_span preserves_svc_call
  preserves_svc_logger preserves_svc_py_str preserves_svc_set_attributes
  preserves_py_str_int

lemma monitor_iteration_svc: "preserves svc monitor_iteration"
  unfolding monitor_iteration_def by (intro preserves_svc_intros)

lemma after_request_svc: "preserves svc (after_request ctx now resp)"
  unfolding after_request_def after_request_user_context_def after_request_metrics_def
  by (auto intro!: preserves_svc_intros split: option.splits)

lemma handle_exception_svc: "preserves svc (handle_exception error)"
  unfolding handle_exception_def
  by (auto intro!: preserves_svc_intros)

lemma track_custom_event_svc: "preserves svc (track_custom_event name props)"
  unfolding track_custom_event_def
  by (auto intro!: preserves_svc_intros split: option.splits)

lemma track_database_query_svc:
  "preserves svc (track_database_query query_name duration_ms success)"
  unfolding track_database_query_def
  by (auto intro!: preserves_svc_intros split: option.splits)

lemma track_user_session_svc: "preserves svc (track_user_session ctx uid event_type props)"
  unfolding track_user_session_def session_client_ip_def
  by (auto intro!: preserves_svc_intros split: option.splits)

lemma sampler_callbacks_svc:
  "preserves svc (get_cpu_usage smp)" "preserves svc (get_memory_usage smp)"
  "preserves svc (get_disk_usage smp)"
  unfolding get_cpu_usage_def get_memory_usage_def get_disk_usage_def
  by (intro preserves_svc_intros)+

section \<open>Initialisation\<close>

lemmas run_defs =
  ret_def py_raise_def bnd_def thn_def try_except_def py_finally_def call_def logger_def
  get_self_def set_self_def with_span_def py_print_def

lemmas init_defs =
  init_app_def init_setup_def create_metrics_def create_instrument_def
  instrument_libraries_def register_flask_hooks_def start_system_monitoring_def
  str_bool_of_def








lemma ready_svc:
  "svc ready =
   MonitoringService
     \<lparr> enabled := True,
       connection_string := Some ''InstrumentationKey=0'',
       tracer := Some Tracer, meter := Some Meter, app := Some configured_app,
       http_request_duration := Some (Instrument Histogram ''http.server.request.duration''
          ''HTTP request duration in milliseconds'' ''ms'' []),
       http_requests_total := Some (Instrument Counter ''http.server.requests.total''
          ''Total number of HTTP requests'' ''1'' []),
       cpu_usage_gauge := Some (Instrument ObservableGauge ''system.cpu.usage''
          ''CPU usage percentage'' ''%'' [GetCpuUsage]),
       memory_usage_gauge := Some (Instrument ObservableGauge ''system.memory.usage''
          ''Memory usage percentage'' ''%'' [GetMemoryUsage]),
       disk_usage_gauge := Some (Instrument ObservableGauge ''system.disk.usage''
          ''Disk usage percentage'' ''%'' [GetDiskUsage]),
       db_query_duration := Some (Instrument Histogram ''db.query.duration''
          ''Database query duration in milliseconds'' ''ms'' []),
       active_users_gauge := Some (Instrument ObservableGauge ''app.users.active''
          ''Number of currently active users'' ''1'' [GetActiveUsersCount]),
       user_sessions_counter := Some (Instrument Counter ''app.user.sessions''
          ''User session events'' ''1'' []),
       system_monitor_thread := True \<rparr>"
  by (simp add: ready_def configured_app_def init_defs run_defs no_faults_def fresh_def
      MonitoringService_def)


lemma preserves_tracker: "preserves svc m \<Longrightarrow> preserves tracker_of m"
  by (simp add: preserves_def tracker_of_def)

lemma flush_declared_gauges:
  assumes g: "gauges_of (svc st) = declared_gauges"
  shows "fst (flush_gauges smp \<rho> st) =
         Inr (map (Pair ''system.cpu.usage'')
                (case \<rho> (ncalls st) (Ext ''psutil.cpu_percent'') of
                   None \<Rightarrow> [Observation (cpu_percent smp)] | Some e \<Rightarrow> []) @
              map (Pair ''system.memory.usage'')
                (case \<rho> (Suc (ncalls st)) (Ext ''psutil.virtual_memory'') of
                   None \<Rightarrow> [Observation (memory_percent smp)] | Some e \<Rightarrow> []) @
              map (Pair ''system.disk.usage'')
                (case \<rho> (Suc (Suc (ncalls st))) (Ext ''psutil.disk_usage'') of
                   None \<Rightarrow> [Observation (disk_percent smp)] | Some e \<Rightarrow> []) @
              map (Pair ''app.users.active'')
                (case \<rho> (Suc (Suc (Suc (ncalls st)))) dict_iteration of
                   None \<Rightarrow> fst (get_active_users_count (clock smp) (svc st))
                 | Some e \<Rightarrow> []))"
  by (simp add: flush_gauges_def get_self_run g declared_gauges_def
      get_cpu_usage_def get_memory_usage_def get_disk_usage_def
      get_active_users_count_callback_def
      bnd_def thn_def try_except_def call_def ret_def logger_def
      split: option.splits)

section \<open>The claims about the rest of the service\<close>




text \<open>
  Claim C2, as amended. When the iteration of the clean-up is not disturbed, a touch
  and a read of the count end with no entry whose age, as the code computes it,
  exceeds the timeout, and the count the read yields is the number of entries that
  were inside the window. When the iteration is disturbed, the error is logged and the
  operation ends without evicting: the touch has stored its timestamp, the read yields
  no observation and leaves the dictionary as it was. Nothing else evicts: one turn of
  the background thread, the hooks \<open>after_request\<close> and \<open>handle_exception\<close>, the
  tracking calls and the sampling callbacks leave the dictionary as it was.
\<close>

theorem lazy_eviction_invariant:
  "(\<rho> (ncalls st) dict_iteration = None \<longrightarrow>
      fst (track_user_activity uid t_store now \<rho> st) = Inr () \<and>
      (\<forall>p \<in> set (tracker_of (snd (track_user_activity uid t_store now \<rho> st))).
         \<not> dsub now (snd p) > active_user_timeout (svc st)) \<and>
      (\<forall>p \<in> set (tracker_of (snd (get_active_users_count_callback smp \<rho> st))).
         \<not> dsub (clock smp) (snd p) > active_user_timeout (svc st)) \<and>
      fst (get_active_users_count_callback smp \<rho> st) =
        Inr [Observation (real (length
          (filter (\<lambda>p. \<not> dsub (clock smp) (snd p) > active_user_timeout (svc st))
             (tracker_of st))))]) \<and>
   (\<rho> (ncalls st) dict_iteration = Some e \<longrightarrow>
      fst (track_user_activity uid t_store now \<rho> st) = Inr () \<and>
      tracker_of (snd (track_user_activity uid t_store now \<rho> st)) =
        dict_setitem (tracker_of st) uid t_store \<and>
      fst (get_active_users_count_callback smp \<rho> st) = Inr [] \<and>
      tracker_of (snd (get_active_users_count_callback smp \<rho> st)) = tracker_of st) \<and>
   preserves tracker_of monitor_iteration \<and>
   preserves tracker_of (after_request ctx now' resp) \<and>
   preserves tracker_of (handle_exception error) \<and>
   preserves tracker_of (track_custom_event name props) \<and>
   preserves tracker_of (track_database_query query_name duration_ms success) \<and>
   preserves tracker_of (track_user_session ctx uid' event_type props) \<and>
   preserves tracker_of (get_cpu_usage smp') \<and>
   preserves tracker_of (get_memory_usage smp') \<and>
   preserves tracker_of (get_disk_usage smp')"
proof -
  have calm: "fst (track_user_activity uid t_store now \<rho> st) = Inr () \<and>
      (\<forall>p \<in> set (tracker_of (snd (track_user_activity uid t_store now \<rho> st))).
         \<not> dsub now (snd p) > active_user_timeout (svc st)) \<and>
      (\<forall>p \<in> set (tracker_of (snd (get_active_users_count_callback smp \<rho> st))).
         \<not> dsub (clock smp) (snd p) > active_user_timeout (svc st)) \<and>
      fst (get_active_users_count_callback smp \<rho> st) =
        Inr [Observation (real (length
          (filter (\<lambda>p. \<not> dsub (clock smp) (snd p) > active_user_timeout (svc st))
             (tracker_of st))))]"
    if ok: "\<rho> (ncalls st) dict_iteration = None"
    using ok track_user_activity_body_no_expired [of _ uid t_store now "svc st"]
      get_active_users_count_no_expired [of _ "clock smp" "svc st"]
    by (simp add: tracker_of_def track_user_activity_undisturbed
        get_active_users_count_callback_undisturbed get_active_users_count_value)
  have rough: "fst (track_user_activity uid t_store now \<rho> st) = Inr () \<and>
      tracker_of (snd (track_user_activity uid t_store now \<rho> st)) =
        dict_setitem (tracker_of st) uid t_store \<and>
      fst (get_active_users_count_callback smp \<rho> st) = Inr [] \<and>
      tracker_of (snd (get_active_users_count_callback smp \<rho> st)) = tracker_of st"
    if bad: "\<rho> (ncalls st) dict_iteration = Some e"
    using bad
    by (simp add: tracker_of_def track_user_activity_disturbed
        get_active_users_count_callback_disturbed)
  from calm rough show ?thesis
    by (simp add: preserves_tracker monitor_iteration_svc after_request_svc
        handle_exception_svc track_custom_event_svc track_database_query_svc
        track_user_session_svc sampler_callbacks_svc)
qed

theorem lazy_eviction_invariant_witness:
  "no_faults (ncalls stale) dict_iteration = None \<and>
   iteration_disturbed (ncalls stale) dict_iteration =
     Some (PyError ''RuntimeError'' ''dictionary changed size during iteration'') \<and>
   (2, 1000) \<in> set (tracker_of (snd (track_user_activity 2 1000 1000 no_faults stale))) \<and>
   \<not> dsub 1000 (snd (2::int, 1000::real)) > active_user_timeout (svc stale) \<and>
   fst (get_active_users_count_callback
          \<lparr>cpu_percent = 0, memory_percent = 0, disk_percent = 0, clock = 1000\<rparr>
          no_faults stale) = Inr [Observation 0] \<and>
   tracker_of (snd (track_user_activity 2 1000 1000 iteration_disturbed stale)) =
     [(1, 0), (2, 1000)] \<and>
   fst (get_active_users_count_callback
          \<lparr>cpu_percent = 0, memory_percent = 0, disk_percent = 0, clock = 1000\<rparr>
          iteration_disturbed stale) = Inr []"
proof -
  let ?smp = "\<lparr>cpu_percent = 0, memory_percent = 0, disk_percent = 0, clock = 1000\<rparr>"
  let ?e = "PyError ''RuntimeError'' ''dictionary changed size during iteration''"
  have a: "no_faults (ncalls stale) dict_iteration = None" by (simp add: no_faults_def)
  have b: "iteration_disturbed (ncalls stale) dict_iteration = Some ?e"
    by (simp add: iteration_disturbed_def)
  have t: "tracker_of stale = [(1, 0)]" "active_user_timeout (svc stale) = 900"
    by (simp_all add: tracker_of_def stale_def MonitoringService_def)
  have m: "(2, 1000) \<in> set (tracker_of (snd (track_user_activity 2 1000 1000 no_faults stale)))"
    using a
    by (simp add: tracker_of_def track_user_activity_undisturbed
        track_user_activity_body_def Let_def dict_pop_def dsub_def stale_def
        MonitoringService_def)
  note calm = lazy_eviction_invariant [where \<rho> = no_faults and st = stale and uid = 2
      and t_store = 1000 and now = 1000 and smp = ?smp]
  note rough = lazy_eviction_invariant [where \<rho> = iteration_disturbed and st = stale
      and e = ?e and uid = 2 and t_store = 1000 and now = 1000 and smp = ?smp]
  from calm a m have c1: "\<not> dsub 1000 (snd (2::int, 1000::real)) > active_user_timeout (svc stale)"
    by blast
  from calm a have "fst (get_active_users_count_callback ?smp no_faults stale) =
        Inr [Observation (real (length
          (filter (\<lambda>p. \<not> dsub (clock ?smp) (snd p) > active_user_timeout (svc stale))
             (tracker_of stale))))]" by blast
  then have c2: "fst (get_active_users_count_callback ?smp no_faults stale) =
      Inr [Observation 0]"
    by (simp add: t dsub_def)
  from rough b have "tracker_of (snd (track_user_activity 2 1000 1000 iteration_disturbed stale)) =
        dict_setitem (tracker_of stale) 2 1000"
    and c4: "fst (get_active_users_count_callback ?smp iteration_disturbed stale) = Inr []"
    by blast+
  then have c3: "tracker_of (snd (track_user_activity 2 1000 1000 iteration_disturbed stale)) =
      [(1, 0), (2, 1000)]"
    by (simp add: t)
  from a b m c1 c2 c3 c4 show ?thesis by blast
qed

text \<open>
  Claim C2, as stated, fails. A touch at 1000 whose iteration is disturbed completes,
  and the entry last seen at 0, older than the timeout of 900, is still in the
  dictionary.
\<close>

theorem disturbed_touch_keeps_expired:
  "fst (track_user_activity 2 1000 1000 iteration_disturbed stale) = Inr () \<and>
   (1, 0) \<in> set (tracker_of (snd (track_user_activity 2 1000 1000 iteration_disturbed stale))) \<and>
   dsub 1000 (snd (1::int, 0::real)) >
     active_user_timeout (svc (snd (track_user_activity 2 1000 1000 iteration_disturbed stale)))"
  by (simp add: track_user_activity_def iteration_disturbed_def stale_def tracker_of_def
      try_except_def thn_def bnd_def set_self_def call_def logger_def dsub_def
      MonitoringService_def)

text \<open>
  Claim C5. A tracking call never ends with an exception, whatever the calls into the
  telemetry libraries do; and on a disabled service it returns at once, with no
  external call made, nothing logged and the service untouched.
\<close>

theorem tracking_calls_isolated:
  "fst (track_custom_event name props \<rho> st) = Inr () \<and>
   fst (track_database_query query_name duration_ms success \<rho> st) = Inr () \<and>
   fst (track_user_session ctx uid event_type props \<rho> st) = Inr () \<and>
   (\<not> enabled (svc st) \<longrightarrow>
      track_custom_event name props \<rho> st = (Inr (), st) \<and>
      track_database_query query_name duration_ms success \<rho> st = (Inr (), st) \<and>
      track_user_session ctx uid event_type props \<rho> st = (Inr (), st))"
  by (simp add: track_custom_event_result track_database_query_result
      track_user_session_result track_custom_event_disabled track_database_query_disabled
      track_user_session_disabled)

theorem tracking_calls_isolated_witness:
  "\<not> enabled (svc fresh) \<and>
   track_custom_event ''login'' None sdk_down fresh = (Inr (), fresh) \<and>
   track_database_query ''select_users'' 12 True sdk_down fresh = (Inr (), fresh) \<and>
   track_user_session
     \<lparr>g_request_start_time = None, g_user_id = None, request_method = ''GET'',
      request_endpoint = None, x_forwarded_for = None, remote_addr = None,
      has_current_span = True, span_is_recording = True\<rparr>
     7 ''login'' None sdk_down fresh = (Inr (), fresh) \<and>
   fst (track_custom_event ''login'' None sdk_down ready) = Inr ()"
proof -
  have d: "\<not> enabled (svc fresh)" by (simp add: fresh_def MonitoringService_def)
  from tracking_calls_isolated [of "''login''" None sdk_down fresh "''select_users''" 12 True
      "\<lparr>g_request_start_time = None, g_user_id = None, request_method = ''GET'',
      request_endpoint = None, x_forwarded_for = None, remote_addr = None,
      has_current_span = True, span_is_recording = True\<rparr>" 7 "''login''"] d
    tracking_calls_isolated [of "''login''" None sdk_down ready]
  show ?thesis by blast
qed

text \<open>
  Claim C6. The error handler ends by raising the error it was given, in every state of
  the pipeline and whatever the tracing calls do. On an enabled pipeline with a tracer,
  when the tracing calls return, it has opened the span \<open>error_handler\<close>, set
  \<open>error.type\<close> and \<open>error.message\<close> on it, recorded the error and closed the span;
  on a disabled pipeline it does nothing else.
\<close>

theorem error_pass_through:
  "fst (handle_exception error \<rho> st) = Inl error \<and>
   (enabled (svc st) \<and> tracer (svc st) \<noteq> None \<longrightarrow>
      performed (snd (handle_exception error no_faults st)) =
        performed st @
          [StartSpan ''error_handler'',
           SetAttribute (NewSpan ''error_handler'') ''error.type'' (AStr (etype error)),
           SetAttribute (NewSpan ''error_handler'') ''error.message'' (AStr (emsg error)),
           RecordException (NewSpan ''error_handler'') error,
           EndSpan ''error_handler'']) \<and>
   (\<not> enabled (svc st) \<longrightarrow> snd (handle_exception error \<rho> st) = st)"
  by (simp add: handle_exception_result handle_exception_records handle_exception_disabled)

theorem error_pass_through_witness:
  "enabled (svc ready) \<and> tracer (svc ready) \<noteq> None \<and> \<not> enabled (svc fresh) \<and>
   fst (handle_exception (PyError ''ValueError'' ''bad input'') sdk_down ready) =
     Inl (PyError ''ValueError'' ''bad input'') \<and>
   performed (snd (handle_exception (PyError ''ValueError'' ''bad input'') no_faults ready)) =
     performed ready @
       [StartSpan ''error_handler'',
        SetAttribute (NewSpan ''error_handler'') ''error.type'' (AStr ''ValueError''),
        SetAttribute (NewSpan ''error_handler'') ''error.message'' (AStr ''bad input''),
        RecordException (NewSpan ''error_handler'') (PyError ''ValueError'' ''bad input''),
        EndSpan ''error_handler''] \<and>
   handle_exception (PyError ''ValueError'' ''bad input'') sdk_down fresh =
     (Inl (PyError ''ValueError'' ''bad input''), fresh)"
proof -
  let ?e = "PyError ''ValueError'' ''bad input''"
  have a: "enabled (svc ready)" "tracer (svc ready) \<noteq> None"
    by (simp_all add: ready_svc)
  have b: "\<not> enabled (svc fresh)" by (simp add: fresh_def MonitoringService_def)
  note r = error_pass_through [of ?e sdk_down ready]
  note f = error_pass_through [of ?e sdk_down fresh]
  from r have r1: "fst (handle_exception ?e sdk_down ready) = Inl ?e" by blast
  from r a have r2: "performed (snd (handle_exception ?e no_faults ready)) =
     performed ready @
       [StartSpan ''error_handler'',
        SetAttribute (NewSpan ''error_handler'') ''error.type'' (AStr (etype ?e)),
        SetAttribute (NewSpan ''error_handler'') ''error.message'' (AStr (emsg ?e)),
        RecordException (NewSpan ''error_handler'') ?e,
        EndSpan ''error_handler'']" by blast
  from f b have "fst (handle_exception ?e sdk_down fresh) = Inl ?e"
    and "snd (handle_exception ?e sdk_down fresh) = fresh" by blast+
  then have f1: "handle_exception ?e sdk_down fresh = (Inl ?e, fresh)"
    by (cases "handle_exception ?e sdk_down fresh") simp
  from a b r1 r2 f1 show ?thesis by simp
qed

text \<open>
  Claim C7. A callback whose sampling call raises yields no observation and returns;
  when the call returns it yields the sample. For the three samplers the call is the
  one into psutil, for the active-users counter it is the iteration over the
  dictionary. So a flush that would stop at the first exception leaving a callback
  never stops: on the gauges the service declares it collects, for each gauge, what
  that gauge's own callback yields, and any number of ticks all complete.
\<close>

theorem gauge_callbacks_isolated:
  "fst (get_cpu_usage smp \<rho> st) =
     Inr (case \<rho> (ncalls st) (Ext ''psutil.cpu_percent'') of
            None \<Rightarrow> [Observation (cpu_percent smp)] | Some e \<Rightarrow> []) \<and>
   fst (get_memory_usage smp \<rho> st) =
     Inr (case \<rho> (ncalls st) (Ext ''psutil.virtual_memory'') of
            None \<Rightarrow> [Observation (memory_percent smp)] | Some e \<Rightarrow> []) \<and>
   fst (get_disk_usage smp \<rho> st) =
     Inr (case \<rho> (ncalls st) (Ext ''psutil.disk_usage'') of
            None \<Rightarrow> [Observation (disk_percent smp)] | Some e \<Rightarrow> []) \<and>
   fst (get_active_users_count_callback smp \<rho> st) =
     Inr (case \<rho> (ncalls st) dict_iteration of
            None \<Rightarrow> fst (get_active_users_count (clock smp) (svc st)) | Some e \<Rightarrow> []) \<and>
   (\<exists>obs. fst (flush_ticks smps \<rho> st) = Inr obs \<and> length obs = length smps) \<and>
   (gauges_of (svc st) = declared_gauges \<longrightarrow>
      fst (flush_gauges smp \<rho> st) =
        Inr (map (Pair ''system.cpu.usage'')
               (case \<rho> (ncalls st) (Ext ''psutil.cpu_percent'') of
                  None \<Rightarrow> [Observation (cpu_percent smp)] | Some e \<Rightarrow> []) @
             map (Pair ''system.memory.usage'')
               (case \<rho> (Suc (ncalls st)) (Ext ''psutil.virtual_memory'') of
                  None \<Rightarrow> [Observation (memory_percent smp)] | Some e \<Rightarrow> []) @
             map (Pair ''system.disk.usage'')
               (case \<rho> (Suc (Suc (ncalls st))) (Ext ''psutil.disk_usage'') of
                  None \<Rightarrow> [Observation (disk_percent smp)] | Some e \<Rightarrow> []) @
             map (Pair ''app.users.active'')
               (case \<rho> (Suc (Suc (Suc (ncalls st)))) dict_iteration of
                  None \<Rightarrow> fst (get_active_users_count (clock smp) (svc st))
                | Some e \<Rightarrow> [])))"
  by (intro conjI impI get_cpu_usage_result get_memory_usage_result get_disk_usage_result
      get_active_users_count_callback_result flush_ticks_returns flush_declared_gauges)

theorem gauge_callbacks_isolated_witness:
  "gauges_of (svc ready) = declared_gauges \<and>
   fst (get_cpu_usage
          \<lparr>cpu_percent = 35, memory_percent = 40, disk_percent = 70, clock = 100\<rparr>
          cpu_broken ready) = Inr [] \<and>
   fst (get_active_users_count_callback
          \<lparr>cpu_percent = 35, memory_percent = 40, disk_percent = 70, clock = 100\<rparr>
          iteration_disturbed ready) = Inr [] \<and>
   fst (flush_gauges
          \<lparr>cpu_percent = 35, memory_percent = 40, disk_percent = 70, clock = 100\<rparr>
          cpu_broken ready) =
     Inr [(''system.memory.usage'', Observation 40),
          (''system.disk.usage'', Observation 70),
          (''app.users.active'', Observation 0)]"
proof -
  let ?smp = "\<lparr>cpu_percent = 35, memory_percent = 40, disk_percent = 70, clock = 100\<rparr>"
  have g: "gauges_of (svc ready) = declared_gauges"
    by (simp add: ready_svc gauges_of_def declared_gauges_def MonitoringService_def)
  have au: "fst (get_active_users_count 100 (svc ready)) = [Observation 0]"
    by (simp add: ready_svc get_active_users_count_def Let_def dict_len_def
        MonitoringService_def)
  note main = gauge_callbacks_isolated [where smp = ?smp and \<rho> = cpu_broken and st = ready
      and smps = "[]"]
  note dist = gauge_callbacks_isolated [where smp = ?smp and \<rho> = iteration_disturbed
      and st = ready and smps = "[]"]
  from main have "fst (get_cpu_usage ?smp cpu_broken ready) =
     Inr (case cpu_broken (ncalls ready) (Ext ''psutil.cpu_percent'') of
            None \<Rightarrow> [Observation (cpu_percent ?smp)] | Some e \<Rightarrow> [])" by blast
  then have c: "fst (get_cpu_usage ?smp cpu_broken ready) = Inr []"
    by (simp add: cpu_broken_def)
  from dist have "fst (get_active_users_count_callback ?smp iteration_disturbed ready) =
     Inr (case iteration_disturbed (ncalls ready) dict_iteration of
            None \<Rightarrow> fst (get_active_users_count (clock ?smp) (svc ready)) | Some e \<Rightarrow> [])"
    by blast
  then have d: "fst (get_active_users_count_callback ?smp iteration_disturbed ready) = Inr []"
    by (simp add: iteration_disturbed_def)
  from main g have "fst (flush_gauges ?smp cpu_broken ready) =
        Inr (map (Pair ''system.cpu.usage'')
               (case cpu_broken (ncalls ready) (Ext ''psutil.cpu_percent'') of
                  None \<Rightarrow> [Observation (cpu_percent ?smp)] | Some e \<Rightarrow> []) @
             map (Pair ''system.memory.usage'')
               (case cpu_broken (Suc (ncalls ready)) (Ext ''psutil.virtual_memory'') of
                  None \<Rightarrow> [Observation (memory_percent ?smp)] | Some e \<Rightarrow> []) @
             map (Pair ''system.disk.usage'')
               (case cpu_broken (Suc (Suc (ncalls ready))) (Ext ''psutil.disk_usage'') of
                  None \<Rightarrow> [Observation (disk_percent ?smp)] | Some e \<Rightarrow> []) @
             map (Pair ''app.users.active'')
               (case cpu_broken (Suc (Suc (Suc (ncalls ready)))) dict_iteration of
                  None \<Rightarrow> fst (get_active_users_count (clock ?smp) (svc ready))
                | Some e \<Rightarrow> []))" by blast
  then have f: "fst (flush_gauges ?smp cpu_broken ready) =
     Inr [(''system.memory.usage'', Observation 40),
          (''system.disk.usage'', Observation 70),
          (''app.users.active'', Observation 0)]"
    by (simp add: cpu_broken_def dict_iteration_def au)
  from g c d f show ?thesis by blast
qed

text \<open>
  Claim C8. On an enabled pipeline whose two request instruments exist, for a request
  whose start time was captured, and when recording on the two instruments does not
  raise, \<open>after_request\<close> records \<open>(now - start_time) * 1000\<close> on the request-duration
  histogram with the method, the route and the status code, then adds 1 to the
  requests-total counter with the method and the status code; these are the only
  metric records of the hook.
\<close>

theorem request_end_recorded:
  assumes "enabled (svc st)"
    and "g_request_start_time ctx = Some start_time"
    and "http_request_duration (svc st) = Some h"
    and "http_requests_total (svc st) = Some c"
    and "\<forall>n op. is_metric_op op \<longrightarrow> \<rho> n op = None"
  shows "metric_ops (snd (after_request ctx now resp \<rho> st)) =
         metric_ops st @
           [HistogramRecord (iname h) ((now - start_time) * 1000)
              [(''http.method'', AStr (request_method ctx)),
               (''http.route'', AStr (or_unknown (request_endpoint ctx))),
               (''http.status_code'', AInt (status_code resp))],
            CounterAdd (iname c) 1
              [(''http.method'', AStr (request_method ctx)),
               (''http.status_code'', AInt (status_code resp))]]"
  using assms by (rule after_request_records)

theorem request_end_recorded_witness:
  "enabled (svc ready) \<and>
   metric_ops (snd (after_request
       \<lparr>g_request_start_time = Some 10, g_user_id = Some ''7'', request_method = ''GET'',
        request_endpoint = Some ''main.index'', x_forwarded_for = None, remote_addr = None,
        has_current_span = True, span_is_recording = True\<rparr>
       (10.25) \<lparr>status_code = 200, payload = ''ok''\<rparr> no_faults ready)) =
     [HistogramRecord ''http.server.request.duration'' 250
        [(''http.method'', AStr ''GET''), (''http.route'', AStr ''main.index''),
         (''http.status_code'', AInt 200)],
      CounterAdd ''http.server.requests.total'' 1
        [(''http.method'', AStr ''GET''), (''http.status_code'', AInt 200)]]"
proof -
  let ?ctx = "\<lparr>g_request_start_time = Some 10, g_user_id = Some ''7'', request_method = ''GET'',
        request_endpoint = Some ''main.index'', x_forwarded_for = None, remote_addr = None,
        has_current_span = True, span_is_recording = True\<rparr>"
  let ?h = "Instrument Histogram ''http.server.request.duration''
          ''HTTP request duration in milliseconds'' ''ms'' []"
  let ?c = "Instrument Counter ''http.server.requests.total''
          ''Total number of HTTP requests'' ''1'' []"
  have a: "enabled (svc ready)" by (simp add: ready_svc)
  have b: "g_request_start_time ?ctx = Some 10" by simp
  have h: "http_request_duration (svc ready) = Some ?h" by (simp add: ready_svc)
  have c: "http_requests_total (svc ready) = Some ?c" by (simp add: ready_svc)
  have ok: "\<forall>n op. is_metric_op op \<longrightarrow> no_faults n op = None" by (simp add: no_faults_def)
  have m0: "metric_ops ready = []"
    by (simp add: metric_ops_def ready_def configured_app_def init_defs run_defs
        no_faults_def fresh_def MonitoringService_def)
  from request_end_recorded [OF a b h c ok, of "10.25" "\<lparr>status_code = 200, payload = ''ok''\<rparr>"]
    a m0
  show ?thesis by (simp add: or_unknown_def)
qed




text \<open>
  Claim C10. \<open>after_request\<close> returns the response it was given, as it was given: on a
  disabled pipeline, without a captured start time, and whatever the calls made while
  recording do.
\<close>

theorem after_request_returns_response:
  "fst (after_request ctx now resp \<rho> st) = Inr resp"
  by (rule after_request_result)


end
